theory Spec2Isabelle
  imports Main "HOL-Library.Multiset"
begin

section \<open>The agent pipeline (AgentOrchestrator)\<close>

subsection \<open>Objects and messages\<close>

text \<open>
  An \<^verbatim>\<open>Email\<close> is a JavaScript object, and the orchestrator copies it with the spread
  operator, which copies the top-level properties and shares every nested object with the
  original. The objects therefore live in an explicit heap. An object is a finite map from
  property names to values, a value is a primitive or a reference to an object (arrays and
  nested records are objects too), and the heap is the list of all objects, the address of
  an object being its index. Objects are never freed.
\<close>

datatype val = VStr string | VNum int | VBool bool | VRef nat

type_synonym obj = "string \<rightharpoonup> val"

type_synonym heap = "obj list"

definition deref :: "heap \<Rightarrow> nat \<Rightarrow> obj" where
  "deref h a = (if a < length h then h ! a else Map.empty)"

text \<open>
  What a piece of code outside the orchestrator can do to the heap: assign or delete a
  property of an existing object, or create an object, which gets the next address.
\<close>

datatype heap_op = Assign nat string val | Delete nat string | New obj

fun apply_op :: "heap \<Rightarrow> heap_op \<Rightarrow> heap" where
  "apply_op h (Assign a k v) = (if a < length h then h[a := (h ! a)(k \<mapsto> v)] else h)"
| "apply_op h (Delete a k) = (if a < length h then h[a := (h ! a)(k := None)] else h)"
| "apply_op h (New ob) = h @ [ob]"

definition apply_ops :: "heap_op list \<Rightarrow> heap \<Rightarrow> heap" where
  "apply_ops ops h = foldl apply_op h ops"


text \<open>\<^verbatim>\<open>email.id\<close>\<close>

definition email_id :: "heap \<Rightarrow> nat \<Rightarrow> string" where
  "email_id h email = (case deref h email ''id'' of Some (VStr s) \<Rightarrow> s | _ \<Rightarrow> [])"

subsection \<open>Agents\<close>

text \<open>\<^verbatim>\<open>AgentProcessResult\<close> of core/interfaces.ts (the \<^verbatim>\<open>actions\<close> list is never read
  by the orchestrator and is left out). The modifications are the properties of the
  \<^verbatim>\<open>Partial<Email>\<close> the agent answers with.\<close>

record agent_process_result =
  success :: bool
  modifications :: "obj option"
  error :: "string option"

text \<open>What a call of \<^verbatim>\<open>agent.process\<close> or of the database can throw: an \<^verbatim>\<open>Error\<close>
  object with its message, or any other value.\<close>

datatype thrown = ErrorObj string | OtherThrown

text \<open>\<^verbatim>\<open>error instanceof Error ? error.message : 'Unknown error'\<close>\<close>

fun error_message :: "thrown \<Rightarrow> string" where
  "error_message (ErrorObj m) = m"
| "error_message OtherThrown = ''Unknown error''"

datatype process_outcome = Returns agent_process_result | Throws thrown

text \<open>
  An agent (\<^verbatim>\<open>IAgent\<close>, \<^verbatim>\<open>BaseAgent\<close>): identity, name, declared type (any string), the
  numeric \<^verbatim>\<open>priority\<close> of its \<^verbatim>\<open>AgentConfig\<close>, and \<^verbatim>\<open>process\<close>. A call of \<^verbatim>\<open>process\<close>
  is handed the address of a message and runs on the current heap. It yields the heap
  operations the agent performs, in order (whatever it writes into the object it was
  handed, into nested objects or into objects of its own, up to the point where it returns
  or throws), and then either a result or a thrown value.
\<close>

record agent =
  agent_id :: string
  agent_name :: string
  agent_type :: string
  agent_priority :: nat
  agent_process :: "nat \<Rightarrow> heap \<Rightarrow> heap_op list \<times> process_outcome"

subsection \<open>The task ledger (DatabaseService.saveAgentTask)\<close>

datatype task_status = Pending | Processing | Completed | Failed

text \<open>A row of \<^verbatim>\<open>agent_tasks\<close>. The parameters column holds the serialization of
  \<^verbatim>\<open>{ email: processedEmail }\<close> made when the row is written: the properties the working
  message has at that moment.\<close>

record agent_task =
  task_id :: string
  task_agentId :: string
  task_emailId :: string
  task_action :: string
  task_parameters :: obj
  task_status :: task_status
  task_result :: "agent_process_result option"
  task_error :: "string option"
  task_createdAt :: int
  task_completedAt :: "int option"

text \<open>
  The database: whether a connection is open (\<^verbatim>\<open>this.db\<close>), the table \<^verbatim>\<open>agent_tasks\<close>
  keyed by task id, and what writing a given row raises, if anything. The last is a
  parameter of the model: it stands for an exception of \<^verbatim>\<open>JSON.stringify\<close> on the
  parameters or the result and for an error reported by sqlite's \<^verbatim>\<open>run\<close>.
\<close>

record database =
  db_connected :: bool
  db_agent_tasks :: "string \<rightharpoonup> agent_task"
  db_write_error :: "agent_task \<Rightarrow> thrown option"

text \<open>\<^verbatim>\<open>saveAgentTask\<close> throws when the database is not connected, then when the row
  cannot be serialized or sqlite rejects it, and otherwise runs \<^verbatim>\<open>INSERT OR REPLACE\<close> on
  the task's id.\<close>

definition saveAgentTask :: "database \<Rightarrow> agent_task \<Rightarrow> thrown + database" where
  "saveAgentTask db task =
     (if \<not> db_connected db then Inl (ErrorObj ''Database not connected'')
      else case db_write_error db task of
             Some e \<Rightarrow> Inl e
           | None \<Rightarrow> Inr (db\<lparr>db_agent_tasks := (db_agent_tasks db)(task_id task \<mapsto> task)\<rparr>))"

subsection \<open>The registry\<close>

text \<open>The \<^verbatim>\<open>Map\<close> of agents keeps insertion order; it is the list of its values.\<close>

definition registerAgent :: "agent \<Rightarrow> agent list \<Rightarrow> thrown + agent list" where
  "registerAgent a agents =
     (if agent_id a \<in> set (map agent_id agents)
      then Inl (ErrorObj (''Agent '' @ agent_id a @ '' is already registered''))
      else Inr (agents @ [a]))"

definition unregisterAgent :: "string \<Rightarrow> agent list \<Rightarrow> thrown + agent list" where
  "unregisterAgent aid agents =
     (if aid \<in> set (map agent_id agents)
      then Inr (filter (\<lambda>a. agent_id a \<noteq> aid) agents)
      else Inl (ErrorObj (''Agent '' @ aid @ '' not found'')))"

subsection \<open>Execution order\<close>

text \<open>
  \<^verbatim>\<open>getAgentPriority\<close> returns \<^verbatim>\<open>priorityMap[agent.type] || 0\<close>, and \<^verbatim>\<open>priorityMap\<close> is an
  object literal. For a type in the table the answer is its number and for any other plain
  string it is 0; but for a type that names a member every object inherits from
  \<^verbatim>\<open>Object.prototype\<close> the lookup finds that member, a function or an object, which is
  truthy and is returned as it is.
\<close>

definition priorityMap :: "(string \<times> int) list" where
  "priorityMap =
     [(''security'', 100), (''filter'', 90), (''categorizer'', 80), (''prioritizer'', 70),
      (''summarizer'', 60), (''translator'', 50), (''responder'', 40), (''scheduler'', 30)]"

definition object_prototype_members :: "string list" where
  "object_prototype_members =
     [''constructor'', ''__defineGetter__'', ''__defineSetter__'', ''hasOwnProperty'',
      ''__lookupGetter__'', ''__lookupSetter__'', ''isPrototypeOf'', ''propertyIsEnumerable'',
      ''toString'', ''valueOf'', ''__proto__'', ''toLocaleString'']"

datatype priority_value = Number int | Inherited

definition getAgentPriority :: "agent \<Rightarrow> priority_value" where
  "getAgentPriority a =
     (case map_of priorityMap (agent_type a) of
        Some p \<Rightarrow> Number p
      | None \<Rightarrow> if agent_type a \<in> set object_prototype_members then Inherited else Number 0)"

text \<open>
  The comparator \<^verbatim>\<open>(a, b) => priorityB - priorityA\<close>. When either operand is not a number
  the difference is NaN, which the sort reads as +0.
\<close>

definition compareAgents :: "agent \<Rightarrow> agent \<Rightarrow> int" where
  "compareAgents a b =
     (case (getAgentPriority a, getAgentPriority b) of
        (Number priorityA, Number priorityB) \<Rightarrow> priorityB - priorityA
      | _ \<Rightarrow> 0)"

text \<open>
  \<^verbatim>\<open>Array.from(this.agents.values()).sort(...)\<close>. The sort of JavaScript arrays is stable,
  and for a comparator that orders the elements consistently every stable sort returns the
  list that this insertion sort computes. When the comparator is not consistent, which here
  needs a type that names an inherited member, the language leaves the order to the
  engine; two elements that compare as +0 keep their order in every stable sort.
\<close>

fun insert_by :: "('a \<Rightarrow> 'a \<Rightarrow> int) \<Rightarrow> 'a \<Rightarrow> 'a list \<Rightarrow> 'a list" where
  "insert_by cmp x [] = [x]"
| "insert_by cmp x (y # ys) = (if cmp x y \<le> 0 then x # y # ys else y # insert_by cmp x ys)"

definition sortAgents :: "agent list \<Rightarrow> agent list" where
  "sortAgents agents = foldr (insert_by compareAgents) agents []"

subsection \<open>processEmailInternal\<close>

text \<open>
  The values the run takes from its environment: the \<open>n\<close>-th call of \<^verbatim>\<open>uuidv4()\<close>
  returns \<open>rt_uuid n\<close>, the \<open>n\<close>-th reading of the clock (\<^verbatim>\<open>Date.now()\<close>,
  \<^verbatim>\<open>new Date()\<close>) returns \<open>rt_clock n\<close>. Logging is not modelled.
\<close>

record runtime =
  rt_uuid :: "nat \<Rightarrow> string"
  rt_clock :: "nat \<Rightarrow> int"

text \<open>\<^verbatim>\<open>agentResults\<close> is a \<^verbatim>\<open>Map\<close>: its entries keep the order in which their keys were
  first set, and setting a key again replaces the value in place.\<close>

fun map_set :: "'k \<Rightarrow> 'v \<Rightarrow> ('k \<times> 'v) list \<Rightarrow> ('k \<times> 'v) list" where
  "map_set k v [] = [(k, v)]"
| "map_set k v (e # es) = (if fst e = k then (k, v) # es else e # map_set k v es)"

text \<open>The variables of the loop, and the heap.\<close>

record run_state =
  rs_database :: database
  rs_agentResults :: "(string \<times> agent_process_result) list"
  rs_processedEmail :: nat
  rs_heap :: heap
  rs_uuids :: nat
  rs_ticks :: nat

text \<open>The \<^verbatim>\<open>catch\<close> block: the failure is recorded in \<^verbatim>\<open>agentResults\<close> only.\<close>

definition catch_agent :: "agent \<Rightarrow> thrown \<Rightarrow> run_state \<Rightarrow> run_state" where
  "catch_agent a e st =
     st\<lparr>rs_agentResults := map_set (agent_id a)
          \<lparr>success = False, modifications = None, error = Some (error_message e)\<rparr>
          (rs_agentResults st)\<rparr>"

text \<open>\<^verbatim>\<open>if (!result.success && result.error) task.error = result.error\<close>: an empty
  string is falsy.\<close>

definition finalize_task :: "agent_task \<Rightarrow> agent_process_result \<Rightarrow> int \<Rightarrow> agent_task" where
  "finalize_task task result now =
     (let t = task\<lparr>task_status := (if success result then Completed else Failed),
                   task_result := Some result,
                   task_completedAt := Some now\<rparr>
      in case error result of
           Some msg \<Rightarrow> if \<not> success result \<and> msg \<noteq> [] then t\<lparr>task_error := Some msg\<rparr> else t
         | None \<Rightarrow> t)"

text \<open>\<^verbatim>\<open>if (result.success && result.modifications) processedEmail = {...processedEmail,
  ...result.modifications}\<close>: the merge creates a new object and the working message
  becomes that object.\<close>

definition merge_modifications :: "heap \<times> nat \<Rightarrow> agent_process_result \<Rightarrow> heap \<times> nat" where
  "merge_modifications hp result =
     (case modifications result of
        Some m \<Rightarrow> if success result then (fst hp @ [deref (fst hp) (snd hp) ++ m], length (fst hp))
                  else hp
      | None \<Rightarrow> hp)"

text \<open>
  One iteration of the \<^verbatim>\<open>for\<close> loop: the \<^verbatim>\<open>try\<close> body, with every throw going to
  \<open>catch_agent\<close> in the state reached so far. The task keeps a reference to the message
  the agent was handed, so the second write serializes that object as the agent left it.
\<close>

definition run_agent :: "runtime \<Rightarrow> nat \<Rightarrow> run_state \<Rightarrow> agent \<Rightarrow> run_state" where
  "run_agent rt email st a =
     (let handed = rs_processedEmail st;
          task = \<lparr>task_id = rt_uuid rt (rs_uuids st), task_agentId = agent_id a,
                  task_emailId = email_id (rs_heap st) email, task_action = ''process'',
                  task_parameters = deref (rs_heap st) handed, task_status = Processing,
                  task_result = None, task_error = None,
                  task_createdAt = rt_clock rt (rs_ticks st), task_completedAt = None\<rparr>;
          st1 = st\<lparr>rs_uuids := Suc (rs_uuids st), rs_ticks := Suc (rs_ticks st)\<rparr>
      in case saveAgentTask (rs_database st1) task of
           Inl e \<Rightarrow> catch_agent a e st1
         | Inr db1 \<Rightarrow>
            (let call = agent_process a handed (rs_heap st1);
                 st2 = st1\<lparr>rs_database := db1, rs_heap := apply_ops (fst call) (rs_heap st1)\<rparr>
             in case snd call of
                  Throws e \<Rightarrow> catch_agent a e st2
                | Returns result \<Rightarrow>
                   (let merged = merge_modifications (rs_heap st2, handed) result;
                        st3 = st2\<lparr>rs_agentResults := map_set (agent_id a) result (rs_agentResults st2),
                                  rs_heap := fst merged,
                                  rs_processedEmail := snd merged,
                                  rs_ticks := Suc (rs_ticks st2)\<rparr>;
                        task' = finalize_task (task\<lparr>task_parameters := deref (rs_heap st2) handed\<rparr>)
                                  result (rt_clock rt (rs_ticks st2))
                    in case saveAgentTask (rs_database st3) task' of
                         Inl e \<Rightarrow> catch_agent a e st3
                       | Inr db2 \<Rightarrow> st3\<lparr>rs_database := db2\<rparr>)))"

text \<open>\<^verbatim>\<open>ProcessingResult\<close> of core/interfaces.ts; the two messages are references.\<close>

record processing_result =
  pr_email :: nat
  pr_agentResults :: "(string \<times> agent_process_result) list"
  pr_finalEmail :: nat
  pr_processingTime :: int

text \<open>
  The run, on the caller's message \<open>email\<close> in the heap \<open>h\<close>: the result, the database and
  the heap it leaves. \<^verbatim>\<open>let processedEmail = { ...email }\<close> creates the first copy. Clock
  reading 0 is \<^verbatim>\<open>startTime\<close>.
\<close>

definition processEmailInternal ::
  "runtime \<Rightarrow> database \<Rightarrow> agent list \<Rightarrow> nat \<Rightarrow> heap \<Rightarrow> processing_result \<times> database \<times> heap" where
  "processEmailInternal rt db agents email h =
     (let startTime = rt_clock rt 0;
          st0 = \<lparr>rs_database = db, rs_agentResults = [], rs_processedEmail = length h,
                 rs_heap = h @ [deref h email], rs_uuids = 0, rs_ticks = 1\<rparr>;
          st = foldl (run_agent rt email) st0 (sortAgents agents)
      in (\<lparr>pr_email = email, pr_agentResults = rs_agentResults st,
           pr_finalEmail = rs_processedEmail st,
           pr_processingTime = rt_clock rt (rs_ticks st) - startTime\<rparr>,
          rs_database st, rs_heap st))"






section \<open>The campaign service (CampaignService)\<close>

subsection \<open>Campaigns, schedules and drafts\<close>

text \<open>
  The interfaces of core/campaign.interfaces.ts. Dates are milliseconds since the epoch.
  Fields that no operation below reads or writes (description, type, audience, content,
  delivery configuration, creator, the counters of the metrics other than \<^verbatim>\<open>sent\<close>; the
  recipient and content of a draft) are left out. The counter \<^verbatim>\<open>sent\<close> is a JavaScript
  number, an IEEE double: the theory does not fix a representation of these numbers, their
  type is the parameter \<open>'n\<close>.
\<close>

datatype campaign_status = C_draft | C_scheduled | C_active | C_paused | C_completed | C_cancelled

datatype frequency_type = Daily | Weekly | Monthly | Custom

record schedule_frequency =
  freq_type :: frequency_type
  freq_interval :: "nat option"
  freq_daysOfWeek :: "nat list option"
  freq_dayOfMonth :: "nat option"
  freq_customCron :: "string option"

record campaign_schedule =
  sch_startDate :: int
  sch_endDate :: "int option"
  sch_timezone :: string
  sch_sendTime :: "string option"
  sch_frequency :: "schedule_frequency option"
  sch_batchSize :: "nat option"
  sch_throttleRate :: "nat option"

record 'n campaign_metrics =
  m_sent :: 'n

record approval_status =
  ap_required :: bool
  ap_approved :: bool
  ap_approvedBy :: "string option"
  ap_approvedAt :: "int option"

record 'n email_campaign =
  c_id :: string
  c_name :: string
  c_status :: campaign_status
  c_schedule :: campaign_schedule
  c_metrics :: "'n campaign_metrics"
  c_createdAt :: int
  c_updatedAt :: int
  c_approvalStatus :: "approval_status option"

text \<open>\<^verbatim>\<open>Partial<EmailCampaign>\<close>: every property may be absent.\<close>

record 'n campaign_patch =
  p_id :: "string option"
  p_name :: "string option"
  p_status :: "campaign_status option"
  p_schedule :: "campaign_schedule option"
  p_metrics :: "'n campaign_metrics option"
  p_createdAt :: "int option"
  p_updatedAt :: "int option"
  p_approvalStatus :: "approval_status option"

text \<open>A whole campaign object passed where a \<^verbatim>\<open>Partial<EmailCampaign>\<close> is expected.\<close>

definition as_patch :: "'n email_campaign \<Rightarrow> 'n campaign_patch" where
  "as_patch c =
     \<lparr>p_id = Some (c_id c), p_name = Some (c_name c), p_status = Some (c_status c),
      p_schedule = Some (c_schedule c), p_metrics = Some (c_metrics c),
      p_createdAt = Some (c_createdAt c), p_updatedAt = Some (c_updatedAt c),
      p_approvalStatus = c_approvalStatus c\<rparr>"

definition or_else :: "'a option \<Rightarrow> 'a \<Rightarrow> 'a" where
  "or_else x d = (case x of Some v \<Rightarrow> v | None \<Rightarrow> d)"

text \<open>\<^verbatim>\<open>{...campaign, ...updates}\<close>\<close>

definition spread_campaign ::
  "'n email_campaign \<Rightarrow> 'n campaign_patch \<Rightarrow> 'n email_campaign" where
  "spread_campaign c u =
     \<lparr>c_id = or_else (p_id u) (c_id c), c_name = or_else (p_name u) (c_name c),
      c_status = or_else (p_status u) (c_status c),
      c_schedule = or_else (p_schedule u) (c_schedule c),
      c_metrics = or_else (p_metrics u) (c_metrics c),
      c_createdAt = or_else (p_createdAt u) (c_createdAt c),
      c_updatedAt = or_else (p_updatedAt u) (c_updatedAt c),
      c_approvalStatus =
        (case p_approvalStatus u of Some a \<Rightarrow> Some a | None \<Rightarrow> c_approvalStatus c)\<rparr>"

datatype draft_status = D_draft | D_pending_approval | D_approved | D_rejected | D_sent

record email_draft =
  d_id :: string
  d_campaignId :: "string option"
  d_status :: draft_status
  d_createdAt :: int
  d_updatedAt :: int

subsection \<open>The job queue\<close>

text \<open>
  Modelled from the spec: the Job Queue is the Bull library, which is not part of the
  repository's sources. Following sections 4.4 and 6 of the specification it accepts
  \<^verbatim>\<open>submit(jobType, payload, {delay | repeat, timezone, attempts, backoff})\<close>, lists the
  jobs in given states and removes or fails a job; every call fails when the queue is
  unavailable. A job submitted with a delay or a recurrence waits in state delayed, any
  other in state waiting.
\<close>

datatype job_state = J_waiting | J_delayed | J_active | J_completed | J_failed

record backoff_opts =
  bo_type :: string
  bo_delay :: int

record repeat_opts =
  rep_cron :: string
  rep_tz :: string
  rep_startDate :: int
  rep_endDate :: "int option"

record job_opts =
  opt_delay :: "int option"
  opt_attempts :: "nat option"
  opt_backoff :: "backoff_opts option"
  opt_repeat :: "repeat_opts option"

record job =
  job_id :: nat
  job_name :: string
  job_campaignId :: string
  job_opts :: job_opts
  job_state :: job_state
  job_failedReason :: "string option"

record queue =
  q_available :: bool
  q_jobs :: "job list"
  q_next_id :: nat

definition queue_unavailable :: thrown where
  "queue_unavailable = ErrorObj ''Connection is closed.''"

definition queue_add :: "string \<Rightarrow> string \<Rightarrow> job_opts \<Rightarrow> queue \<Rightarrow> thrown + queue" where
  "queue_add name campaignId opts q =
     (if \<not> q_available q then Inl queue_unavailable
      else Inr (q\<lparr>q_jobs := q_jobs q @
                   [\<lparr>job_id = q_next_id q, job_name = name, job_campaignId = campaignId,
                     job_opts = opts,
                     job_state = (if opt_repeat opts \<noteq> None \<or> 0 < or_else (opt_delay opts) 0
                                  then J_delayed else J_waiting),
                     job_failedReason = None\<rparr>],
                 q_next_id := Suc (q_next_id q)\<rparr>))"

definition queue_getJobs :: "job_state list \<Rightarrow> queue \<Rightarrow> thrown + job list" where
  "queue_getJobs states q =
     (if \<not> q_available q then Inl queue_unavailable
      else Inr (filter (\<lambda>j. job_state j \<in> set states) (q_jobs q)))"

definition job_remove :: "job \<Rightarrow> queue \<Rightarrow> thrown + queue" where
  "job_remove j q =
     (if \<not> q_available q then Inl queue_unavailable
      else Inr (q\<lparr>q_jobs := filter (\<lambda>x. job_id x \<noteq> job_id j) (q_jobs q)\<rparr>))"

definition job_moveToFailed :: "job \<Rightarrow> string \<Rightarrow> queue \<Rightarrow> thrown + queue" where
  "job_moveToFailed j msg q =
     (if \<not> q_available q then Inl queue_unavailable
      else Inr (q\<lparr>q_jobs := map (\<lambda>x. if job_id x = job_id j
                                        then x\<lparr>job_state := J_failed, job_failedReason := Some msg\<rparr>
                                        else x) (q_jobs q)\<rparr>))"

text \<open>The jobs of a campaign that are still to fire.\<close>

definition pending_jobs :: "string \<Rightarrow> queue \<Rightarrow> job list" where
  "pending_jobs campaignId q =
     filter (\<lambda>j. job_campaignId j = campaignId \<and> (job_state j = J_waiting \<or> job_state j = J_delayed))
       (q_jobs q)"

subsection \<open>The service and its operations\<close>

text \<open>
  The two \<^verbatim>\<open>Map\<close>s and the queue. An operation takes the service and returns what the
  promise settles with (\<open>Inl\<close> a rejection) together with the service it leaves, so that
  what a failed operation has already written stays visible. The objects held in the maps
  are mutated in place by the source; here every such assignment is a write to the map.
  One operation reads the clock as the single value \<open>now\<close>. The database stubs
  (\<^verbatim>\<open>saveCampaignToDatabase\<close>, \<^verbatim>\<open>loadCampaignFromDatabase\<close>, \<^verbatim>\<open>deleteCampaignFromDatabase\<close>)
  only log, and \<^verbatim>\<open>loadCampaignFromDatabase\<close> returns null.
\<close>

record 'n service =
  campaigns :: "string \<rightharpoonup> 'n email_campaign"
  drafts :: "string \<rightharpoonup> email_draft"
  campaignQueue :: queue

text \<open>\<^verbatim>\<open>catch (error) { throw new Error(`<prefix>${error.message}`) }\<close>\<close>

definition rethrow :: "string \<Rightarrow> (thrown + 'a) \<times> 's \<Rightarrow> (thrown + 'a) \<times> 's" where
  "rethrow prefix r =
     (case r of
        (Inl e, s) \<Rightarrow> (Inl (ErrorObj (prefix @ error_message e)), s)
      | (Inr x, s) \<Rightarrow> (Inr x, s))"

definition not_found :: "string \<Rightarrow> thrown" where
  "not_found cid = ErrorObj (''Campaign '' @ cid @ '' not found'')"

definition getCampaign :: "string \<Rightarrow> 'n service \<Rightarrow> 'n email_campaign option" where
  "getCampaign cid s = campaigns s cid"

definition updateCampaign ::
  "int \<Rightarrow> string \<Rightarrow> 'n campaign_patch \<Rightarrow> 'n service \<Rightarrow>
   (thrown + 'n email_campaign) \<times> 'n service" where
  "updateCampaign now cid updates s =
     rethrow ''Failed to update campaign: ''
       (case getCampaign cid s of
          None \<Rightarrow> (Inl (not_found cid), s)
        | Some campaign \<Rightarrow>
            (let updatedCampaign = (spread_campaign campaign updates)\<lparr>c_updatedAt := now\<rparr>
             in (Inr updatedCampaign, s\<lparr>campaigns := (campaigns s)(cid \<mapsto> updatedCampaign)\<rparr>)))"

text \<open>
  \<^verbatim>\<open>executeCampaign\<close>. The metrics object is shared by the copies \<^verbatim>\<open>updateCampaign\<close>
  makes, so \<^verbatim>\<open>campaign.metrics.sent += 100\<close> also shows in the stored campaign. The
  addition is the one of IEEE doubles; it is the parameter \<open>plus100\<close> of this and of every
  operation that may execute a campaign.
\<close>

definition executeCampaign ::
  "('n \<Rightarrow> 'n) \<Rightarrow> int \<Rightarrow> string \<Rightarrow> 'n service \<Rightarrow> (thrown + unit) \<times> 'n service" where
  "executeCampaign plus100 now cid s =
     (case getCampaign cid s of
        None \<Rightarrow> (Inl (not_found cid), s)
      | Some campaign \<Rightarrow>
          (let c1 = campaign\<lparr>c_status := C_active\<rparr>;
               s1 = s\<lparr>campaigns := (campaigns s)(cid \<mapsto> c1)\<rparr>
           in case updateCampaign now cid (as_patch c1) s1 of
                (Inl e, s2) \<Rightarrow> (Inl e, s2)
              | (Inr stored, s2) \<Rightarrow>
                  (let metrics = (c_metrics c1)\<lparr>m_sent := plus100 (m_sent (c_metrics c1))\<rparr>;
                       c2 = c1\<lparr>c_metrics := metrics\<rparr>;
                       s3 = s2\<lparr>campaigns := (campaigns s2)(cid \<mapsto> stored\<lparr>c_metrics := metrics\<rparr>)\<rparr>
                   in case updateCampaign now cid (as_patch c2) s3 of
                        (Inl e, s4) \<Rightarrow> (Inl e, s4)
                      | (Inr _, s4) \<Rightarrow> (Inr (), s4))))"

definition scheduleOneTimeCampaign ::
  "('n \<Rightarrow> 'n) \<Rightarrow> int \<Rightarrow> string \<Rightarrow> campaign_schedule \<Rightarrow> 'n service \<Rightarrow>
   (thrown + unit) \<times> 'n service" where
  "scheduleOneTimeCampaign plus100 now campaignId schedule s =
     (let delay = sch_startDate schedule - now
      in if 0 < delay
         then (case queue_add ''send-campaign'' campaignId
                      \<lparr>opt_delay = Some delay, opt_attempts = Some 3,
                       opt_backoff = Some \<lparr>bo_type = ''exponential'', bo_delay = 60000\<rparr>,
                       opt_repeat = None\<rparr> (campaignQueue s) of
                 Inl e \<Rightarrow> (Inl e, s)
               | Inr q \<Rightarrow> (Inr (), s\<lparr>campaignQueue := q\<rparr>))
         else executeCampaign plus100 now campaignId s)"

text \<open>Numbers in template strings and in \<^verbatim>\<open>join\<close>: decimal digits.\<close>

definition digit_char :: "nat \<Rightarrow> char" where
  "digit_char d = ''0123456789'' ! (d mod 10)"

function number_toString :: "nat \<Rightarrow> string" where
  "number_toString n =
     (if n < 10 then [digit_char n] else number_toString (n div 10) @ [digit_char n])"
  by pat_completeness auto
termination
  by (relation "measure id") auto

fun join :: "string \<Rightarrow> string list \<Rightarrow> string" where
  "join sep [] = []"
| "join sep [x] = x"
| "join sep (x # y # ys) = x @ sep @ join sep (y # ys)"

text \<open>\<^verbatim>\<open>x || d\<close> on an optional string: undefined and the empty string are falsy.\<close>

definition str_or :: "string option \<Rightarrow> string \<Rightarrow> string" where
  "str_or x d = (case x of Some v \<Rightarrow> if v = [] then d else v | None \<Rightarrow> d)"

text \<open>The \<^verbatim>\<open>switch\<close> of \<^verbatim>\<open>scheduleRecurringCampaign\<close> that builds \<^verbatim>\<open>cronPattern\<close>.\<close>

definition cronPattern :: "campaign_schedule \<Rightarrow> string" where
  "cronPattern schedule =
     (case sch_frequency schedule of
        None \<Rightarrow> []
      | Some f \<Rightarrow>
         (case freq_type f of
            Daily \<Rightarrow> ''0 '' @ str_or (sch_sendTime schedule) ''10:00'' @ '' * * *''
          | Weekly \<Rightarrow>
              (let days = str_or (map_option (\<lambda>ds. join '','' (map number_toString ds))
                                    (freq_daysOfWeek f)) ''1''
               in ''0 '' @ str_or (sch_sendTime schedule) ''10:00'' @ '' * * '' @ days)
          | Monthly \<Rightarrow>
              (let day = (case freq_dayOfMonth f of Some d \<Rightarrow> if d = 0 then 1 else d | None \<Rightarrow> 1)
               in ''0 '' @ str_or (sch_sendTime schedule) ''10:00'' @ '' '' @ number_toString day @ '' * *'')
          | Custom \<Rightarrow> str_or (freq_customCron f) ''0 10 * * *''))"

definition scheduleRecurringCampaign ::
  "string \<Rightarrow> campaign_schedule \<Rightarrow> 'n service \<Rightarrow> (thrown + unit) \<times> 'n service" where
  "scheduleRecurringCampaign campaignId schedule s =
     (case queue_add ''send-campaign'' campaignId
             \<lparr>opt_delay = None, opt_attempts = None, opt_backoff = None,
              opt_repeat = Some \<lparr>rep_cron = cronPattern schedule, rep_tz = sch_timezone schedule,
                                 rep_startDate = sch_startDate schedule,
                                 rep_endDate = sch_endDate schedule\<rparr>\<rparr> (campaignQueue s) of
        Inl e \<Rightarrow> (Inl e, s)
      | Inr q \<Rightarrow> (Inr (), s\<lparr>campaignQueue := q\<rparr>))"

definition scheduleCampaign ::
  "('n \<Rightarrow> 'n) \<Rightarrow> int \<Rightarrow> string \<Rightarrow> campaign_schedule \<Rightarrow> 'n service \<Rightarrow>
   (thrown + unit) \<times> 'n service" where
  "scheduleCampaign plus100 now cid schedule s =
     rethrow ''Failed to schedule campaign: ''
       (case getCampaign cid s of
          None \<Rightarrow> (Inl (not_found cid), s)
        | Some campaign \<Rightarrow>
            (let c1 = campaign\<lparr>c_schedule := schedule, c_status := C_scheduled\<rparr>;
                 s1 = s\<lparr>campaigns := (campaigns s)(cid \<mapsto> c1)\<rparr>
             in case updateCampaign now cid (as_patch c1) s1 of
                  (Inl e, s2) \<Rightarrow> (Inl e, s2)
                | (Inr _, s2) \<Rightarrow>
                    (case sch_frequency schedule of
                       Some _ \<Rightarrow> scheduleRecurringCampaign cid schedule s2
                     | None \<Rightarrow> scheduleOneTimeCampaign plus100 now cid schedule s2)))"

text \<open>The loop of \<^verbatim>\<open>pauseCampaign\<close> over the waiting and delayed jobs.\<close>

fun fail_jobs_of :: "string \<Rightarrow> job list \<Rightarrow> queue \<Rightarrow> thrown option \<times> queue" where
  "fail_jobs_of cid [] q = (None, q)"
| "fail_jobs_of cid (j # js) q =
     (if job_campaignId j = cid
      then (case job_moveToFailed j ''Campaign paused'' q of
              Inl e \<Rightarrow> (Some e, q)
            | Inr q' \<Rightarrow> fail_jobs_of cid js q')
      else fail_jobs_of cid js q)"

definition pauseCampaign ::
  "int \<Rightarrow> string \<Rightarrow> 'n service \<Rightarrow> (thrown + unit) \<times> 'n service" where
  "pauseCampaign now cid s =
     rethrow ''Failed to pause campaign: ''
       (case getCampaign cid s of
          None \<Rightarrow> (Inl (not_found cid), s)
        | Some campaign \<Rightarrow>
            (let c1 = campaign\<lparr>c_status := C_paused\<rparr>;
                 s1 = s\<lparr>campaigns := (campaigns s)(cid \<mapsto> c1)\<rparr>
             in case updateCampaign now cid (as_patch c1) s1 of
                  (Inl e, s2) \<Rightarrow> (Inl e, s2)
                | (Inr _, s2) \<Rightarrow>
                    (case queue_getJobs [J_waiting, J_delayed] (campaignQueue s2) of
                       Inl e \<Rightarrow> (Inl e, s2)
                     | Inr jobs \<Rightarrow>
                         (case fail_jobs_of cid jobs (campaignQueue s2) of
                            (Some e, q) \<Rightarrow> (Inl e, s2\<lparr>campaignQueue := q\<rparr>)
                          | (None, q) \<Rightarrow> (Inr (), s2\<lparr>campaignQueue := q\<rparr>)))))"

definition resumeCampaign ::
  "('n \<Rightarrow> 'n) \<Rightarrow> int \<Rightarrow> string \<Rightarrow> 'n service \<Rightarrow> (thrown + unit) \<times> 'n service" where
  "resumeCampaign plus100 now cid s =
     rethrow ''Failed to resume campaign: ''
       (case getCampaign cid s of
          None \<Rightarrow> (Inl (not_found cid), s)
        | Some campaign \<Rightarrow>
            if c_status campaign \<noteq> C_paused then (Inl (ErrorObj ''Campaign is not paused''), s)
            else
              (let c1 = campaign\<lparr>c_status := C_active\<rparr>;
                   s1 = s\<lparr>campaigns := (campaigns s)(cid \<mapsto> c1)\<rparr>
               in case updateCampaign now cid (as_patch c1) s1 of
                    (Inl e, s2) \<Rightarrow> (Inl e, s2)
                  | (Inr _, s2) \<Rightarrow> scheduleCampaign plus100 now cid (c_schedule c1) s2))"

text \<open>The loop of \<^verbatim>\<open>cancelScheduledJobs\<close>.\<close>

fun remove_jobs_of :: "string \<Rightarrow> job list \<Rightarrow> queue \<Rightarrow> thrown option \<times> queue" where
  "remove_jobs_of cid [] q = (None, q)"
| "remove_jobs_of cid (j # js) q =
     (if job_campaignId j = cid
      then (case job_remove j q of
              Inl e \<Rightarrow> (Some e, q)
            | Inr q' \<Rightarrow> remove_jobs_of cid js q')
      else remove_jobs_of cid js q)"

definition cancelScheduledJobs ::
  "string \<Rightarrow> 'n service \<Rightarrow> (thrown + unit) \<times> 'n service" where
  "cancelScheduledJobs campaignId s =
     (case queue_getJobs [J_waiting, J_delayed] (campaignQueue s) of
        Inl e \<Rightarrow> (Inl e, s)
      | Inr jobs \<Rightarrow>
          (case remove_jobs_of campaignId jobs (campaignQueue s) of
             (Some e, q) \<Rightarrow> (Inl e, s\<lparr>campaignQueue := q\<rparr>)
           | (None, q) \<Rightarrow> (Inr (), s\<lparr>campaignQueue := q\<rparr>)))"

definition deleteCampaign ::
  "string \<Rightarrow> 'n service \<Rightarrow> (thrown + bool) \<times> 'n service" where
  "deleteCampaign cid s =
     rethrow ''Failed to delete campaign: ''
       (case getCampaign cid s of
          None \<Rightarrow> (Inr False, s)
        | Some campaign \<Rightarrow>
            (case (if c_status campaign = C_scheduled then cancelScheduledJobs cid s
                   else (Inr (), s)) of
               (Inl e, s1) \<Rightarrow> (Inl e, s1)
             | (Inr _, s1) \<Rightarrow> (Inr True, s1\<lparr>campaigns := (campaigns s1)(cid := None)\<rparr>)))"

definition draft_not_found :: "string \<Rightarrow> thrown" where
  "draft_not_found draftId = ErrorObj (''Draft '' @ draftId @ '' not found'')"

definition approveDraft ::
  "int \<Rightarrow> string \<Rightarrow> string \<Rightarrow> 'n service \<Rightarrow> (thrown + unit) \<times> 'n service" where
  "approveDraft now draftId approver s =
     rethrow ''Failed to approve draft: ''
       (case drafts s draftId of
          None \<Rightarrow> (Inl (draft_not_found draftId), s)
        | Some draft \<Rightarrow>
            (let d1 = draft\<lparr>d_status := D_approved, d_updatedAt := now\<rparr>;
                 s1 = s\<lparr>drafts := (drafts s)(draftId \<mapsto> d1)\<rparr>
             in case d_campaignId d1 of
                  None \<Rightarrow> (Inr (), s1)
                | Some cid \<Rightarrow>
                    if cid = [] then (Inr (), s1)
                    else
                      (case getCampaign cid s1 of
                         None \<Rightarrow> (Inr (), s1)
                       | Some campaign \<Rightarrow>
                           (let c1 = campaign\<lparr>c_approvalStatus :=
                                        Some \<lparr>ap_required = True, ap_approved = True,
                                              ap_approvedBy = Some approver,
                                              ap_approvedAt = Some now\<rparr>\<rparr>;
                                s2 = s1\<lparr>campaigns := (campaigns s1)(cid \<mapsto> c1)\<rparr>
                            in case updateCampaign now cid (as_patch c1) s2 of
                                 (Inl e, s3) \<Rightarrow> (Inl e, s3)
                               | (Inr _, s3) \<Rightarrow> (Inr (), s3)))))"

definition rejectDraft ::
  "int \<Rightarrow> string \<Rightarrow> string \<Rightarrow> 'n service \<Rightarrow> (thrown + unit) \<times> 'n service" where
  "rejectDraft now draftId reason s =
     rethrow ''Failed to reject draft: ''
       (case drafts s draftId of
          None \<Rightarrow> (Inl (draft_not_found draftId), s)
        | Some draft \<Rightarrow>
            (Inr (), s\<lparr>drafts := (drafts s)(draftId \<mapsto> draft\<lparr>d_status := D_rejected,
                                                               d_updatedAt := now\<rparr>)\<rparr>))"

section \<open>Reference definitions and sample inputs\<close>



text \<open>
  A heap with the caller's message at address 0 and its array of labels at address 1, and
  the sample agents. The security agent throws; the filter returns a failure that carries
  modifications; the categorizer and the responder succeed, and the responder reads the
  category of the message it is handed. Their numeric priorities disagree with the table.
  The marker assigns a property of the object it is handed, the labeler pushes a label
  onto the array of labels of the message it is handed, and the last agent has a type that
  names a member of \<^verbatim>\<open>Object.prototype\<close>.
\<close>

definition ex_message :: obj where
  "ex_message = [''id'' \<mapsto> VStr ''m1'', ''subject'' \<mapsto> VStr ''hello'',
     ''category'' \<mapsto> VStr ''primary'', ''labels'' \<mapsto> VRef 1]"

definition ex_labels :: obj where
  "ex_labels = [''0'' \<mapsto> VStr ''inbox'', ''length'' \<mapsto> VNum 1]"

definition ex_heap :: heap where
  "ex_heap = [ex_message, ex_labels]"

definition ex_security :: agent where
  "ex_security = \<lparr>agent_id = ''a-sec'', agent_name = ''Security'', agent_type = ''security'',
     agent_priority = 1, agent_process = (\<lambda>p h. ([], Throws (ErrorObj ''boom'')))\<rparr>"

definition ex_filter :: agent where
  "ex_filter = \<lparr>agent_id = ''a-fil'', agent_name = ''Filter'', agent_type = ''filter'',
     agent_priority = 5,
     agent_process = (\<lambda>p h. ([], Returns \<lparr>success = False,
        modifications = Some [''category'' \<mapsto> VStr ''trash''], error = Some ''no rules''\<rparr>))\<rparr>"

definition ex_categorizer :: agent where
  "ex_categorizer = \<lparr>agent_id = ''a-cat'', agent_name = ''Categorizer'',
     agent_type = ''categorizer'', agent_priority = 100,
     agent_process = (\<lambda>p h. ([], Returns \<lparr>success = True,
        modifications = Some [''category'' \<mapsto> VStr ''spam''], error = None\<rparr>))\<rparr>"

definition ex_responder :: agent where
  "ex_responder = \<lparr>agent_id = ''a-res'', agent_name = ''Responder'', agent_type = ''responder'',
     agent_priority = 50,
     agent_process = (\<lambda>p h. ([], Returns \<lparr>success = True,
        modifications =
          Some [''isRead'' \<mapsto> VBool (deref h p ''category'' = Some (VStr ''spam''))],
        error = None\<rparr>))\<rparr>"

definition ex_marker :: agent where
  "ex_marker = \<lparr>agent_id = ''a-mar'', agent_name = ''Marker'', agent_type = ''prioritizer'',
     agent_priority = 7,
     agent_process = (\<lambda>p h. ([Assign p ''isStarred'' (VBool True)],
        Returns \<lparr>success = False, modifications = None, error = Some ''gave up''\<rparr>))\<rparr>"

definition ex_labeler :: agent where
  "ex_labeler = \<lparr>agent_id = ''a-lab'', agent_name = ''Labeler'', agent_type = ''summarizer'',
     agent_priority = 9,
     agent_process = (\<lambda>p h.
        ((case deref h p ''labels'' of
            Some (VRef l) \<Rightarrow> [Assign l ''1'' (VStr ''seen''), Assign l ''length'' (VNum 2)]
          | _ \<Rightarrow> []),
         Returns \<lparr>success = True, modifications = None, error = None\<rparr>))\<rparr>"

definition ex_inherited :: agent where
  "ex_inherited = \<lparr>agent_id = ''a-inh'', agent_name = ''Inherited'', agent_type = ''toString'',
     agent_priority = 0,
     agent_process = (\<lambda>p h. ([], Returns \<lparr>success = True, modifications = None,
        error = None\<rparr>))\<rparr>"

definition ex_database :: database where
  "ex_database = \<lparr>db_connected = True, db_agent_tasks = Map.empty,
     db_write_error = (\<lambda>t. None)\<rparr>"

definition ex_database_down :: database where
  "ex_database_down = ex_database\<lparr>db_connected := False\<rparr>"

definition ex_runtime :: runtime where
  "ex_runtime = \<lparr>rt_uuid = (\<lambda>n. ''task-'' @ number_toString n), rt_clock = (\<lambda>n. 1000 + int n)\<rparr>"

text \<open>Schedules, a campaign, a draft and a service holding them; the clock reads 1000
  in the examples. The numbers of the examples are small integers, on which the addition of
  doubles is the addition of integers.\<close>

definition ex_plus100 :: "int \<Rightarrow> int" where
  "ex_plus100 n = n + 100"

definition ex_schedule_future :: campaign_schedule where
  "ex_schedule_future = \<lparr>sch_startDate = 5000, sch_endDate = None, sch_timezone = ''UTC'',
     sch_sendTime = None, sch_frequency = None, sch_batchSize = None, sch_throttleRate = None\<rparr>"

definition ex_schedule_past :: campaign_schedule where
  "ex_schedule_past = \<lparr>sch_startDate = 500, sch_endDate = None, sch_timezone = ''UTC'',
     sch_sendTime = None, sch_frequency = None, sch_batchSize = None, sch_throttleRate = None\<rparr>"

definition ex_frequency :: "frequency_type \<Rightarrow> schedule_frequency" where
  "ex_frequency t = \<lparr>freq_type = t, freq_interval = None, freq_daysOfWeek = None,
     freq_dayOfMonth = None, freq_customCron = None\<rparr>"

definition ex_schedule_weekly :: campaign_schedule where
  "ex_schedule_weekly = \<lparr>sch_startDate = 1000, sch_endDate = None,
     sch_timezone = ''America/New_York'', sch_sendTime = Some ''09:00'',
     sch_frequency = Some ((ex_frequency Weekly)\<lparr>freq_daysOfWeek := Some [1, 3, 5]\<rparr>),
     sch_batchSize = None, sch_throttleRate = None\<rparr>"

definition ex_schedule_default :: "frequency_type \<Rightarrow> campaign_schedule" where
  "ex_schedule_default t = \<lparr>sch_startDate = 1000, sch_endDate = None, sch_timezone = ''UTC'',
     sch_sendTime = None, sch_frequency = Some (ex_frequency t),
     sch_batchSize = None, sch_throttleRate = None\<rparr>"

definition ex_campaign :: "campaign_status \<Rightarrow> int email_campaign" where
  "ex_campaign st = \<lparr>c_id = ''c1'', c_name = ''Launch'', c_status = st,
     c_schedule = ex_schedule_future, c_metrics = \<lparr>m_sent = 0\<rparr>, c_createdAt = 0,
     c_updatedAt = 0, c_approvalStatus = None\<rparr>"

definition ex_draft :: email_draft where
  "ex_draft = \<lparr>d_id = ''d1'', d_campaignId = Some ''c1'', d_status = D_draft, d_createdAt = 0,
     d_updatedAt = 0\<rparr>"

definition ex_service :: "campaign_status \<Rightarrow> bool \<Rightarrow> int service" where
  "ex_service st up = \<lparr>campaigns = [''c1'' \<mapsto> ex_campaign st], drafts = [''d1'' \<mapsto> ex_draft],
     campaignQueue = \<lparr>q_available = up, q_jobs = [], q_next_id = 1\<rparr>\<rparr>"

text \<open>The draft campaign scheduled for a future start.\<close>

definition ex_scheduled :: "int service" where
  "ex_scheduled = snd (scheduleCampaign ex_plus100 1000 ''c1'' ex_schedule_future (ex_service C_draft True))"

text \<open>The same campaign scheduled again, now with a start date in the past.\<close>

definition ex_rescheduled :: "int service" where
  "ex_rescheduled = snd (scheduleCampaign ex_plus100 1000 ''c1'' ex_schedule_past ex_scheduled)"

text \<open>The draft approved once.\<close>

definition ex_approved :: "int service" where
  "ex_approved = snd (approveDraft 1000 ''d1'' ''ann'' (ex_service C_draft True))"

section \<open>Properties of the pipeline\<close>

subsection \<open>The registry\<close>

lemma registerAgent_distinct:
  "distinct (map agent_id agents) \<Longrightarrow> registerAgent a agents = Inr agents' \<Longrightarrow>
   distinct (map agent_id agents')"
  by (auto simp: registerAgent_def split: if_splits)

subsection \<open>The heap\<close>





subsection \<open>The outcome map\<close>




subsection \<open>One iteration\<close>











subsection \<open>The order\<close>


lemma getAgentPriority_table:
  "map_of priorityMap (agent_type a) = Some p \<Longrightarrow> getAgentPriority a = Number p"
  by (simp add: getAgentPriority_def)











lemma distinct_sort_key_ids:
  "distinct (map agent_id agents) \<Longrightarrow> distinct (map agent_id (sort_key f agents))"
  by (metis mset_sort mset_map mset_eq_imp_distinct_iff)



subsection \<open>What the run leaves alone\<close>











subsection \<open>The sample inputs\<close>

lemma priority_examples:
  "getAgentPriority ex_security = Number 100" "getAgentPriority ex_filter = Number 90"
  "getAgentPriority ex_categorizer = Number 80" "getAgentPriority ex_responder = Number 40"
  "getAgentPriority ex_marker = Number 70" "getAgentPriority ex_labeler = Number 60"
  "getAgentPriority ex_inherited = Inherited"
  by (simp_all add: getAgentPriority_def priorityMap_def object_prototype_members_def
      ex_security_def ex_filter_def ex_categorizer_def ex_responder_def ex_marker_def
      ex_labeler_def ex_inherited_def)

lemma sortAgents_single: "sortAgents [a] = [a]"
  by (simp add: sortAgents_def)

lemma sortAgents_example:
  "sortAgents [ex_responder, ex_categorizer, ex_filter] = [ex_filter, ex_categorizer, ex_responder]"
  by (simp add: sortAgents_def compareAgents_def priority_examples)

lemma sortAgents_example_throwing:
  "sortAgents [ex_responder, ex_security] = [ex_security, ex_responder]"
  by (simp add: sortAgents_def compareAgents_def priority_examples)



lemma ex_agent_ids:
  "agent_id ex_security = ''a-sec''" "agent_id ex_filter = ''a-fil''"
  "agent_id ex_categorizer = ''a-cat''" "agent_id ex_responder = ''a-res''"
  "agent_id ex_marker = ''a-mar''" "agent_id ex_labeler = ''a-lab''"
  "agent_id ex_inherited = ''a-inh''"
  by (simp_all add: ex_security_def ex_filter_def ex_categorizer_def ex_responder_def
      ex_marker_def ex_labeler_def ex_inherited_def)

lemma ex_agent_calls:
  "agent_process ex_security p h = ([], Throws (ErrorObj ''boom''))"
  "agent_process ex_filter p h = ([], Returns \<lparr>success = False,
     modifications = Some [''category'' \<mapsto> VStr ''trash''], error = Some ''no rules''\<rparr>)"
  "agent_process ex_categorizer p h = ([], Returns \<lparr>success = True,
     modifications = Some [''category'' \<mapsto> VStr ''spam''], error = None\<rparr>)"
  "agent_process ex_responder p h = ([], Returns \<lparr>success = True,
     modifications = Some [''isRead'' \<mapsto> VBool (deref h p ''category'' = Some (VStr ''spam''))],
     error = None\<rparr>)"
  "agent_process ex_marker p h = ([Assign p ''isStarred'' (VBool True)],
     Returns \<lparr>success = False, modifications = None, error = Some ''gave up''\<rparr>)"
  "agent_process ex_inherited p h =
     ([], Returns \<lparr>success = True, modifications = None, error = None\<rparr>)"
  by (simp_all add: ex_security_def ex_filter_def ex_categorizer_def ex_responder_def
      ex_marker_def ex_inherited_def)

lemma ex_labeler_call:
  "deref h p ''labels'' = Some (VRef l) \<Longrightarrow>
   agent_process ex_labeler p h =
     ([Assign l ''1'' (VStr ''seen''), Assign l ''length'' (VNum 2)],
      Returns \<lparr>success = True, modifications = None, error = None\<rparr>)"
  by (simp add: ex_labeler_def)

lemma ex_database_fields:
  "db_connected ex_database" "db_write_error ex_database = (\<lambda>t. None)"
  "db_agent_tasks ex_database = Map.empty" "\<not> db_connected ex_database_down"
  by (simp_all add: ex_database_def ex_database_down_def)

lemma ex_runtime_fields:
  "rt_uuid ex_runtime 0 = ''task-0''" "rt_uuid ex_runtime (Suc 0) = ''task-1''"
  "rt_clock ex_runtime n = 1000 + int n"
  by (simp_all add: ex_runtime_def digit_char_def)

lemma ex_message_fields:
  "ex_message ''id'' = Some (VStr ''m1'')" "ex_message ''category'' = Some (VStr ''primary'')"
  "ex_message ''labels'' = Some (VRef 1)"
  by (simp_all add: ex_message_def)

lemmas pipeline_defs = run_agent_def saveAgentTask_def catch_agent_def
  finalize_task_def merge_modifications_def apply_ops_def deref_def email_id_def
  ex_heap_def ex_agent_ids ex_agent_calls ex_database_fields ex_runtime_fields
  ex_message_fields Let_def

lemma throwing_example_result:
  "map_of (pr_agentResults (fst (processEmailInternal ex_runtime ex_database
       [ex_responder, ex_security] 0 ex_heap))) ''a-sec'' =
     Some \<lparr>success = False, modifications = None, error = Some ''boom''\<rparr>"
  unfolding processEmailInternal_def sortAgents_example_throwing
  by (simp add: pipeline_defs)

lemma throwing_example_task:
  "map_option (\<lambda>t. (task_agentId t, task_status t, task_error t, task_completedAt t))
     (db_agent_tasks (fst (snd (processEmailInternal ex_runtime ex_database
        [ex_responder, ex_security] 0 ex_heap))) ''task-0'') =
     Some (''a-sec'', Processing, None, None)"
  unfolding processEmailInternal_def sortAgents_example_throwing
  by (simp add: pipeline_defs)

lemma throwing_example_next_task:
  "map_option (\<lambda>t. (task_agentId t, task_status t))
     (db_agent_tasks (fst (snd (processEmailInternal ex_runtime ex_database
        [ex_responder, ex_security] 0 ex_heap))) ''task-1'') =
     Some (''a-res'', Completed)"
  unfolding processEmailInternal_def sortAgents_example_throwing
  by (simp add: pipeline_defs)

lemma failing_example_task:
  "map_option (\<lambda>t. (task_agentId t, task_status t, task_error t))
     (db_agent_tasks (fst (snd (processEmailInternal ex_runtime ex_database [ex_filter] 0 ex_heap)))
        ''task-0'') =
     Some (''a-fil'', Failed, Some ''no rules'')"
  unfolding processEmailInternal_def sortAgents_single
  by (simp add: pipeline_defs)












subsection \<open>Sequential application\<close>




subsection \<open>A unit that throws\<close>

text \<open>
  Claim C2. Evaluation at a registry holding the responder and the throwing security agent.
  The security agent runs first and throws; the responder still runs and its task is
  finalized as completed. The task written for the security agent before it was invoked
  stays in status processing, with no error and no completion time: the \<^verbatim>\<open>catch\<close> block
  records the failure in \<^verbatim>\<open>agentResults\<close> and never writes the task again. A unit that
  returns a failure instead of throwing (the filter) does get its task finalized as failed
  with its error.
\<close>

theorem throwing_unit_task_stays_processing:
  "sortAgents [ex_responder, ex_security] = [ex_security, ex_responder] \<and>
   snd (agent_process ex_security 2 [ex_message, ex_labels, ex_message]) =
     Throws (ErrorObj ''boom'') \<and>
   map_of (pr_agentResults (fst (processEmailInternal ex_runtime ex_database
       [ex_responder, ex_security] 0 ex_heap))) ''a-sec'' =
     Some \<lparr>success = False, modifications = None, error = Some ''boom''\<rparr> \<and>
   map_option (\<lambda>t. (task_agentId t, task_status t, task_error t, task_completedAt t))
     (db_agent_tasks (fst (snd (processEmailInternal ex_runtime ex_database
        [ex_responder, ex_security] 0 ex_heap))) ''task-0'') =
     Some (''a-sec'', Processing, None, None) \<and>
   map_option (\<lambda>t. (task_agentId t, task_status t))
     (db_agent_tasks (fst (snd (processEmailInternal ex_runtime ex_database
        [ex_responder, ex_security] 0 ex_heap))) ''task-1'') =
     Some (''a-res'', Completed) \<and>
   map_option (\<lambda>t. (task_agentId t, task_status t, task_error t))
     (db_agent_tasks (fst (snd (processEmailInternal ex_runtime ex_database [ex_filter] 0 ex_heap)))
        ''task-0'') =
     Some (''a-fil'', Failed, Some ''no rules'')"
proof (intro conjI)
  show "sortAgents [ex_responder, ex_security] = [ex_security, ex_responder]"
    by (rule sortAgents_example_throwing)
  show "snd (agent_process ex_security 2 [ex_message, ex_labels, ex_message]) =
          Throws (ErrorObj ''boom'')"
    by (simp add: ex_agent_calls)
qed (rule throwing_example_result throwing_example_task throwing_example_next_task
      failing_example_task)+

subsection \<open>Execution order\<close>




subsection \<open>The caller's message\<close>




section \<open>Properties of the campaign service\<close>

subsection \<open>Auxiliary facts\<close>

lemma spread_as_patch:
  "c_approvalStatus c' = c_approvalStatus c \<or> c_approvalStatus c' \<noteq> None \<Longrightarrow>
   spread_campaign c (as_patch c') = c'"
  by (cases c, cases c')
     (auto simp add: spread_campaign_def as_patch_def or_else_def split: option.splits)

lemma updateCampaign_found:
  "campaigns s cid = Some c \<Longrightarrow>
   updateCampaign now cid u s =
     (Inr ((spread_campaign c u)\<lparr>c_updatedAt := now\<rparr>),
      s\<lparr>campaigns := (campaigns s)(cid \<mapsto> (spread_campaign c u)\<lparr>c_updatedAt := now\<rparr>)\<rparr>)"
  by (simp add: updateCampaign_def rethrow_def getCampaign_def Let_def)

lemma executeCampaign_found:
  assumes "campaigns s cid = Some c"
  shows "executeCampaign plus100 now cid s =
     (Inr (), s\<lparr>campaigns := (campaigns s)(cid \<mapsto>
         c\<lparr>c_status := C_active,
           c_metrics := (c_metrics c)\<lparr>m_sent := plus100 (m_sent (c_metrics c))\<rparr>,
           c_updatedAt := now\<rparr>)\<rparr>)"
  using assms
  by (simp add: executeCampaign_def getCampaign_def updateCampaign_found spread_as_patch Let_def)

lemma remove_jobs_of_available:
  "q_available q \<Longrightarrow>
   fst (remove_jobs_of cid js q) = None \<and> q_available (snd (remove_jobs_of cid js q))"
  by (induction cid js q rule: remove_jobs_of.induct) (auto simp: job_remove_def)

lemma remove_jobs_of_jobs:
  "q_available q \<Longrightarrow>
   q_jobs (snd (remove_jobs_of cid js q)) =
     filter (\<lambda>x. job_id x \<notin> job_id ` {j \<in> set js. job_campaignId j = cid}) (q_jobs q)"
proof (induction cid js q rule: remove_jobs_of.induct)
  case (1 cid q)
  then show ?case by simp
next
  case (2 cid j js q)
  show ?case
  proof (cases "job_campaignId j = cid")
    case True
    let ?q = "q\<lparr>q_jobs := filter (\<lambda>x. job_id x \<noteq> job_id j) (q_jobs q)\<rparr>"
    have "q_available ?q"
      using 2(3) by simp
    with 2(1) [OF True, of ?q] 2(3) True show ?thesis
      by (auto simp: job_remove_def intro!: filter_cong)
  next
    case False
    with 2(2) 2(3) show ?thesis
      by (auto intro!: filter_cong)
  qed
qed

lemma fail_jobs_of_available:
  "q_available q \<Longrightarrow> fst (fail_jobs_of cid js q) = None"
  by (induction cid js q rule: fail_jobs_of.induct) (auto simp: job_moveToFailed_def)

lemma cancelScheduledJobs_available:
  assumes "q_available (campaignQueue s)"
  shows "fst (cancelScheduledJobs cid s) = Inr () \<and>
         pending_jobs cid (campaignQueue (snd (cancelScheduledJobs cid s))) = [] \<and>
         campaigns (snd (cancelScheduledJobs cid s)) = campaigns s \<and>
         drafts (snd (cancelScheduledJobs cid s)) = drafts s"
proof -
  obtain js where g: "queue_getJobs [J_waiting, J_delayed] (campaignQueue s) = Inr js"
    and js: "js = filter (\<lambda>j. job_state j = J_waiting \<or> job_state j = J_delayed)
                    (q_jobs (campaignQueue s))"
    using assms by (simp add: queue_getJobs_def)
  obtain q' where r: "remove_jobs_of cid js (campaignQueue s) = (None, q')"
    using remove_jobs_of_available [OF assms, of cid js] by (metis prod.collapse)
  have c: "cancelScheduledJobs cid s = (Inr (), s\<lparr>campaignQueue := q'\<rparr>)"
    by (simp add: cancelScheduledJobs_def g r)
  have "q_jobs q' = filter (\<lambda>x. job_id x \<notin> job_id ` {j \<in> set js. job_campaignId j = cid})
                      (q_jobs (campaignQueue s))"
    using remove_jobs_of_jobs [OF assms, of cid js] r by simp
  then have "pending_jobs cid q' = []"
    unfolding pending_jobs_def js by (auto simp: filter_empty_conv)
  then show ?thesis
    using c by simp
qed

lemma deleteCampaign_scheduled:
  assumes "campaigns s cid = Some c" and "c_status c = C_scheduled"
    and "q_available (campaignQueue s)"
  shows "fst (deleteCampaign cid s) = Inr True"
    and "pending_jobs cid (campaignQueue (snd (deleteCampaign cid s))) = []"
    and "campaigns (snd (deleteCampaign cid s)) = (campaigns s)(cid := None)"
proof -
  obtain s1 where c: "cancelScheduledJobs cid s = (Inr (), s1)"
    and p: "pending_jobs cid (campaignQueue s1) = []" and k: "campaigns s1 = campaigns s"
    using cancelScheduledJobs_available [OF assms(3), of cid] by (metis prod.collapse)
  have d: "deleteCampaign cid s = (Inr True, s1\<lparr>campaigns := (campaigns s1)(cid := None)\<rparr>)"
    using assms(1,2) by (simp add: deleteCampaign_def getCampaign_def rethrow_def c)
  show "fst (deleteCampaign cid s) = Inr True"
    by (simp add: d)
  show "pending_jobs cid (campaignQueue (snd (deleteCampaign cid s))) = []"
    by (simp add: d p)
  show "campaigns (snd (deleteCampaign cid s)) = (campaigns s)(cid := None)"
    by (simp add: d k)
qed

lemma deleteCampaign_not_scheduled:
  "campaigns s cid = Some c \<Longrightarrow> c_status c \<noteq> C_scheduled \<Longrightarrow>
   deleteCampaign cid s = (Inr True, s\<lparr>campaigns := (campaigns s)(cid := None)\<rparr>)"
  by (simp add: deleteCampaign_def getCampaign_def rethrow_def)

lemma deleteCampaign_unavailable:
  "campaigns s cid = Some c \<Longrightarrow> c_status c = C_scheduled \<Longrightarrow> \<not> q_available (campaignQueue s) \<Longrightarrow>
   snd (deleteCampaign cid s) = s"
  by (simp add: deleteCampaign_def getCampaign_def rethrow_def cancelScheduledJobs_def
      queue_getJobs_def)

lemma scheduleCampaign_succeeds:
  assumes "q_available (campaignQueue s)" and "campaigns s cid = Some c"
  shows "\<not> isl (fst (scheduleCampaign plus100 now cid schedule s))"
  using assms
  by (auto simp add: scheduleCampaign_def scheduleOneTimeCampaign_def
      scheduleRecurringCampaign_def getCampaign_def rethrow_def updateCampaign_found
      spread_as_patch executeCampaign_found queue_add_def Let_def split: option.splits)

lemmas example_defs = ex_schedule_future_def ex_schedule_past_def ex_frequency_def
  ex_schedule_weekly_def ex_schedule_default_def ex_campaign_def ex_draft_def ex_service_def
  ex_plus100_def

lemmas service_defs = scheduleCampaign_def scheduleOneTimeCampaign_def
  scheduleRecurringCampaign_def executeCampaign_def updateCampaign_def getCampaign_def
  rethrow_def not_found_def spread_campaign_def as_patch_def or_else_def queue_add_def
  queue_getJobs_def queue_unavailable_def pauseCampaign_def resumeCampaign_def
  deleteCampaign_def cancelScheduledJobs_def job_remove_def job_moveToFailed_def
  approveDraft_def rejectDraft_def draft_not_found_def pending_jobs_def Let_def

lemma ex_scheduled_eq:
  "ex_scheduled =
     \<lparr>campaigns = [''c1'' \<mapsto> (ex_campaign C_scheduled)\<lparr>c_updatedAt := 1000\<rparr>],
      drafts = [''d1'' \<mapsto> ex_draft],
      campaignQueue = \<lparr>q_available = True,
        q_jobs = [\<lparr>job_id = 1, job_name = ''send-campaign'', job_campaignId = ''c1'',
                   job_opts = \<lparr>opt_delay = Some 4000, opt_attempts = Some 3,
                     opt_backoff = Some \<lparr>bo_type = ''exponential'', bo_delay = 60000\<rparr>,
                     opt_repeat = None\<rparr>,
                   job_state = J_delayed, job_failedReason = None\<rparr>],
        q_next_id = 2\<rparr>\<rparr>"
  by (simp add: ex_scheduled_def service_defs example_defs)

lemma ex_rescheduled_eq:
  "ex_rescheduled =
     ex_scheduled\<lparr>campaigns := [''c1'' \<mapsto> (ex_campaign C_active)\<lparr>c_schedule := ex_schedule_past,
        c_metrics := \<lparr>m_sent = 100\<rparr>, c_updatedAt := 1000\<rparr>]\<rparr>"
  unfolding ex_rescheduled_def ex_scheduled_eq
  by (simp add: service_defs example_defs)

lemma ex_approved_status:
  "map_option d_status (drafts ex_approved ''d1'') = Some D_approved"
  by (simp add: ex_approved_def service_defs example_defs)


lemma scheduleCampaign_past_succeeds:
  assumes "campaigns s cid = Some c" and "sch_frequency schedule = None"
    and "sch_startDate schedule - now \<le> 0"
  shows "\<not> isl (fst (scheduleCampaign plus100 now cid schedule s))"
  using assms
  by (simp add: scheduleCampaign_def scheduleOneTimeCampaign_def getCampaign_def rethrow_def
      updateCampaign_found spread_as_patch executeCampaign_found Let_def)

lemma scheduleCampaign_unavailable:
  assumes "campaigns s cid = Some c" and "\<not> q_available (campaignQueue s)"
    and "sch_frequency schedule \<noteq> None \<or> 0 < sch_startDate schedule - now"
  shows "scheduleCampaign plus100 now cid schedule s =
     (Inl (ErrorObj ''Failed to schedule campaign: Connection is closed.''),
      s\<lparr>campaigns := (campaigns s)(cid \<mapsto>
          c\<lparr>c_schedule := schedule, c_status := C_scheduled, c_updatedAt := now\<rparr>)\<rparr>)"
  using assms
  by (auto simp add: scheduleCampaign_def scheduleOneTimeCampaign_def
      scheduleRecurringCampaign_def getCampaign_def rethrow_def updateCampaign_found
      spread_as_patch queue_add_def queue_unavailable_def Let_def split: option.splits)

lemma pauseCampaign_available:
  assumes "campaigns s cid = Some c" and "q_available (campaignQueue s)"
  shows "\<not> isl (fst (pauseCampaign now cid s))"
proof -
  obtain q' where "fail_jobs_of cid
      (filter (\<lambda>j. job_state j = J_waiting \<or> job_state j = J_delayed) (q_jobs (campaignQueue s)))
      (campaignQueue s) = (None, q')"
    using fail_jobs_of_available [OF assms(2)] by (metis prod.collapse)
  then show ?thesis
    using assms
    by (simp add: pauseCampaign_def getCampaign_def rethrow_def updateCampaign_found Let_def
        queue_getJobs_def)
qed

lemma pauseCampaign_unavailable:
  assumes "campaigns s cid = Some c" and "\<not> q_available (campaignQueue s)"
  shows "pauseCampaign now cid s =
     (Inl (ErrorObj ''Failed to pause campaign: Connection is closed.''),
      s\<lparr>campaigns := (campaigns s)(cid \<mapsto> c\<lparr>c_status := C_paused, c_updatedAt := now\<rparr>)\<rparr>)"
  using assms
  by (simp add: pauseCampaign_def getCampaign_def rethrow_def updateCampaign_found
      spread_as_patch queue_getJobs_def queue_unavailable_def Let_def)

lemma resumeCampaign_paused:
  assumes "campaigns s cid = Some c" and "c_status c = C_paused"
  shows "resumeCampaign plus100 now cid s =
     rethrow ''Failed to resume campaign: ''
       (scheduleCampaign plus100 now cid (c_schedule c)
          (s\<lparr>campaigns := (campaigns s)(cid \<mapsto> c\<lparr>c_status := C_active, c_updatedAt := now\<rparr>)\<rparr>))"
  using assms
  by (simp add: resumeCampaign_def getCampaign_def updateCampaign_found spread_as_patch Let_def)

lemma isl_rethrow:
  "isl (fst (rethrow prefix r)) = isl (fst r)"
  by (cases r) (auto simp add: rethrow_def split: sum.splits)

lemma resumeCampaign_unavailable:
  assumes "campaigns s cid = Some c" and "c_status c = C_paused"
    and "\<not> q_available (campaignQueue s)"
    and "sch_frequency (c_schedule c) \<noteq> None \<or> 0 < sch_startDate (c_schedule c) - now"
  shows "resumeCampaign plus100 now cid s =
     (Inl (ErrorObj
        ''Failed to resume campaign: Failed to schedule campaign: Connection is closed.''),
      s\<lparr>campaigns := (campaigns s)(cid \<mapsto> c\<lparr>c_status := C_scheduled, c_updatedAt := now\<rparr>)\<rparr>)"
proof -
  let ?s2 = "s\<lparr>campaigns := (campaigns s)(cid \<mapsto> c\<lparr>c_status := C_active, c_updatedAt := now\<rparr>)\<rparr>"
  have "scheduleCampaign plus100 now cid (c_schedule c) ?s2 =
     (Inl (ErrorObj ''Failed to schedule campaign: Connection is closed.''),
      ?s2\<lparr>campaigns := (campaigns ?s2)(cid \<mapsto>
          (c\<lparr>c_status := C_active, c_updatedAt := now\<rparr>)
            \<lparr>c_schedule := c_schedule c, c_status := C_scheduled, c_updatedAt := now\<rparr>)\<rparr>)"
    by (rule scheduleCampaign_unavailable) (use assms in simp_all)
  then show ?thesis
    unfolding resumeCampaign_paused [OF assms(1,2)]
    by (simp add: rethrow_def)
qed

subsection \<open>One-time scheduling\<close>

text \<open>
  Claim C5, as stated, fails when the job queue is unavailable. The sample draft campaign is
  scheduled one-time at clock reading 1000 with start date 5000, strictly in the future: the
  call fails with an error and the queue holds no job afterwards, where the claim has
  exactly one delayed job submitted.
\<close>

theorem unavailable_queue_submits_no_job:
  "campaigns (ex_service C_draft False) ''c1'' = Some (ex_campaign C_draft) \<and>
   sch_frequency ex_schedule_future = None \<and>
   0 < sch_startDate ex_schedule_future - 1000 \<and>
   fst (scheduleCampaign ex_plus100 1000 ''c1'' ex_schedule_future (ex_service C_draft False)) =
     Inl (ErrorObj ''Failed to schedule campaign: Connection is closed.'') \<and>
   q_jobs (campaignQueue (snd (scheduleCampaign ex_plus100 1000 ''c1'' ex_schedule_future
     (ex_service C_draft False)))) = []"
  by (simp add: service_defs example_defs)

text \<open>
  Claim C5, amended. Scheduling a stored campaign with a schedule that has no frequency:
  when the start date is not after the clock reading, the campaign is executed once on the
  spot (its status becomes active and \<^verbatim>\<open>sent\<close> is increased once, by the addition of 100 of
  the execution) and the queue is left as it was, available or not; when the start date is
  strictly later and the queue is available, exactly one job is appended to the queue,
  delayed by start date minus clock reading, with 3 attempts and exponential backoff from
  60000 ms, and the campaign is not executed (status scheduled, \<^verbatim>\<open>sent\<close> unchanged). The
  addition is the parameter \<open>plus100\<close>, so the statement holds for the addition of IEEE
  doubles as for any other.
\<close>

theorem schedule_one_time:
  assumes "campaigns s cid = Some c" and "sch_frequency schedule = None"
  shows "(sch_startDate schedule - now \<le> 0 \<longrightarrow>
            scheduleCampaign plus100 now cid schedule s =
              (Inr (), s\<lparr>campaigns := (campaigns s)(cid \<mapsto>
                 c\<lparr>c_schedule := schedule, c_status := C_active,
                   c_metrics := (c_metrics c)\<lparr>m_sent := plus100 (m_sent (c_metrics c))\<rparr>,
                   c_updatedAt := now\<rparr>)\<rparr>)) \<and>
         (0 < sch_startDate schedule - now \<and> q_available (campaignQueue s) \<longrightarrow>
            scheduleCampaign plus100 now cid schedule s =
              (Inr (), s\<lparr>campaigns := (campaigns s)(cid \<mapsto>
                           c\<lparr>c_schedule := schedule, c_status := C_scheduled, c_updatedAt := now\<rparr>),
                         campaignQueue := (campaignQueue s)\<lparr>q_jobs := q_jobs (campaignQueue s) @
                           [\<lparr>job_id = q_next_id (campaignQueue s), job_name = ''send-campaign'',
                             job_campaignId = cid,
                             job_opts = \<lparr>opt_delay = Some (sch_startDate schedule - now),
                                          opt_attempts = Some 3,
                                          opt_backoff = Some \<lparr>bo_type = ''exponential'',
                                                               bo_delay = 60000\<rparr>,
                                          opt_repeat = None\<rparr>,
                             job_state = J_delayed, job_failedReason = None\<rparr>],
                           q_next_id := Suc (q_next_id (campaignQueue s))\<rparr>\<rparr>))"
  using assms
  by (simp add: scheduleCampaign_def scheduleOneTimeCampaign_def getCampaign_def rethrow_def
      updateCampaign_found spread_as_patch executeCampaign_found queue_add_def or_else_def
      Let_def)

text \<open>The sample draft campaign at clock reading 1000, with start dates 500 and 5000.\<close>

theorem schedule_one_time_witness:
  "campaigns (ex_service C_draft True) ''c1'' = Some (ex_campaign C_draft) \<and>
   sch_frequency ex_schedule_past = None \<and> sch_frequency ex_schedule_future = None \<and>
   sch_startDate ex_schedule_past - 1000 \<le> 0 \<and>
   0 < sch_startDate ex_schedule_future - 1000 \<and>
   q_available (campaignQueue (ex_service C_draft True)) \<and>
   scheduleCampaign ex_plus100 1000 ''c1'' ex_schedule_past (ex_service C_draft True) =
     (Inr (), (ex_service C_draft True)\<lparr>campaigns := [''c1'' \<mapsto>
        (ex_campaign C_active)\<lparr>c_schedule := ex_schedule_past, c_metrics := \<lparr>m_sent = 100\<rparr>,
          c_updatedAt := 1000\<rparr>]\<rparr>) \<and>
   map (\<lambda>j. (job_campaignId j, job_state j, opt_delay (job_opts j)))
     (q_jobs (campaignQueue (snd (scheduleCampaign ex_plus100 1000 ''c1'' ex_schedule_future
        (ex_service C_draft True))))) = [(''c1'', J_delayed, Some 4000)] \<and>
   map_option (\<lambda>c. (c_status c, m_sent (c_metrics c)))
     (campaigns (snd (scheduleCampaign ex_plus100 1000 ''c1'' ex_schedule_future
        (ex_service C_draft True))) ''c1'') = Some (C_scheduled, 0)"
proof -
  have h: "campaigns (ex_service C_draft True) ''c1'' = Some (ex_campaign C_draft)"
    "sch_frequency ex_schedule_past = None" "sch_frequency ex_schedule_future = None"
    "sch_startDate ex_schedule_past - 1000 \<le> 0" "0 < sch_startDate ex_schedule_future - 1000"
    "q_available (campaignQueue (ex_service C_draft True))"
    by (simp_all add: example_defs)
  from schedule_one_time [OF h(1) h(2), where now = 1000 and ?plus100.0 = ex_plus100]
    schedule_one_time [OF h(1) h(3), where now = 1000 and ?plus100.0 = ex_plus100] h
  show ?thesis
    by (simp add: example_defs)
qed

subsection \<open>Recurring scheduling\<close>

text \<open>
  Claim C6. Evaluation at the weekly schedule with days 1, 3, 5, send time 09:00 and
  timezone America/New_York: the repeating job that is submitted carries the recurrence
  expression \<^verbatim>\<open>0 09:00 * * 1,3,5\<close>, the send time having been pasted whole into the second
  field. The fallbacks are fixed: send time 10:00, weekday 1, day of month 1. The fallback of
  a custom frequency, a literal of the source, is \<^verbatim>\<open>0 10 * * *\<close>, whose second field is the
  hour alone, whereas the daily pattern built from the same default time is
  \<^verbatim>\<open>0 10:00 * * *\<close>.
\<close>

theorem weekly_recurrence_expression:
  "cronPattern ex_schedule_weekly = ''0 09:00 * * 1,3,5'' \<and>
   map (\<lambda>j. (job_campaignId j, map_option (\<lambda>r. (rep_cron r, rep_tz r)) (opt_repeat (job_opts j))))
     (q_jobs (campaignQueue (snd (scheduleCampaign ex_plus100 1000 ''c1'' ex_schedule_weekly
        (ex_service C_draft True))))) =
     [(''c1'', Some (''0 09:00 * * 1,3,5'', ''America/New_York''))] \<and>
   cronPattern (ex_schedule_default Daily) = ''0 10:00 * * *'' \<and>
   cronPattern (ex_schedule_default Weekly) = ''0 10:00 * * 1'' \<and>
   cronPattern (ex_schedule_default Monthly) = ''0 10:00 1 * *'' \<and>
   cronPattern (ex_schedule_default Custom) = ''0 10 * * *''"
  by (simp add: service_defs example_defs cronPattern_def str_or_def digit_char_def)

subsection \<open>Resuming\<close>

text \<open>
  Claim C4. Evaluation at a paused campaign whose stored schedule starts in the future:
  the resume succeeds and resubmits one delayed job, but the status it leaves is scheduled.
  \<^verbatim>\<open>resumeCampaign\<close> writes active and then calls \<^verbatim>\<open>scheduleCampaign\<close>, which writes
  scheduled over it. Resuming a campaign that is not paused fails and changes nothing.
\<close>

theorem resume_leaves_scheduled:
  "map_option c_status (campaigns (ex_service C_paused True) ''c1'') = Some C_paused \<and>
   fst (resumeCampaign ex_plus100 1000 ''c1'' (ex_service C_paused True)) = Inr () \<and>
   map_option c_status
     (campaigns (snd (resumeCampaign ex_plus100 1000 ''c1'' (ex_service C_paused True))) ''c1'') =
     Some C_scheduled \<and>
   map (\<lambda>j. (job_campaignId j, job_state j, opt_delay (job_opts j)))
     (q_jobs (campaignQueue (snd (resumeCampaign ex_plus100 1000 ''c1'' (ex_service C_paused True))))) =
     [(''c1'', J_delayed, Some 4000)] \<and>
   resumeCampaign ex_plus100 1000 ''c1'' (ex_service C_active True) =
     (Inl (ErrorObj ''Failed to resume campaign: Campaign is not paused''),
      ex_service C_active True)"
  by (simp add: service_defs example_defs)

subsection \<open>Deleting\<close>

text \<open>
  Claim C7, as stated, fails on an active campaign. The sample campaign is scheduled for a
  future start, which queues a delayed job, and scheduled again with a start in the past,
  which executes it and makes it active. Deleting it succeeds and removes the campaign, and
  the delayed job that references it is still in the queue: \<^verbatim>\<open>deleteCampaign\<close> cancels jobs
  only when the status is scheduled.
\<close>

theorem delete_active_keeps_job:
  "map_option c_status (campaigns ex_rescheduled ''c1'') = Some C_active \<and>
   fst (deleteCampaign ''c1'' ex_rescheduled) = Inr True \<and>
   campaigns (snd (deleteCampaign ''c1'' ex_rescheduled)) ''c1'' = None \<and>
   map (\<lambda>j. (job_id j, job_state j))
     (pending_jobs ''c1'' (campaignQueue (snd (deleteCampaign ''c1'' ex_rescheduled)))) =
     [(1, J_delayed)]"
  unfolding ex_rescheduled_eq ex_scheduled_eq
  by (simp add: service_defs example_defs)

text \<open>
  Claim C7, amended. Deleting a stored campaign whose status is scheduled, with the queue
  available, succeeds, removes the campaign and leaves no waiting or delayed job that
  references its id. Deleting a stored campaign in any other status removes the campaign and
  leaves the queue untouched.
\<close>

theorem delete_scheduled_clears_jobs:
  assumes "campaigns s cid = Some c"
  shows "(c_status c = C_scheduled \<and> q_available (campaignQueue s) \<longrightarrow>
            fst (deleteCampaign cid s) = Inr True \<and>
            pending_jobs cid (campaignQueue (snd (deleteCampaign cid s))) = [] \<and>
            campaigns (snd (deleteCampaign cid s)) = (campaigns s)(cid := None)) \<and>
         (c_status c \<noteq> C_scheduled \<longrightarrow>
            deleteCampaign cid s = (Inr True, s\<lparr>campaigns := (campaigns s)(cid := None)\<rparr>))"
  using assms
  by (simp add: deleteCampaign_scheduled deleteCampaign_not_scheduled)

text \<open>The sample campaign after its first scheduling: one delayed job before, none after.\<close>

theorem delete_scheduled_clears_jobs_witness:
  "campaigns ex_scheduled ''c1'' = Some ((ex_campaign C_scheduled)\<lparr>c_updatedAt := 1000\<rparr>) \<and>
   c_status ((ex_campaign C_scheduled)\<lparr>c_updatedAt := 1000\<rparr>) = C_scheduled \<and>
   q_available (campaignQueue ex_scheduled) \<and>
   map job_id (pending_jobs ''c1'' (campaignQueue ex_scheduled)) = [1] \<and>
   fst (deleteCampaign ''c1'' ex_scheduled) = Inr True \<and>
   pending_jobs ''c1'' (campaignQueue (snd (deleteCampaign ''c1'' ex_scheduled))) = [] \<and>
   campaigns (snd (deleteCampaign ''c1'' ex_scheduled)) ''c1'' = None"
proof -
  have h: "campaigns ex_scheduled ''c1'' = Some ((ex_campaign C_scheduled)\<lparr>c_updatedAt := 1000\<rparr>)"
    "c_status ((ex_campaign C_scheduled)\<lparr>c_updatedAt := 1000\<rparr>) = C_scheduled"
    "q_available (campaignQueue ex_scheduled)"
    "map job_id (pending_jobs ''c1'' (campaignQueue ex_scheduled)) = [1]"
    by (simp_all add: ex_scheduled_eq pending_jobs_def ex_campaign_def)
  from delete_scheduled_clears_jobs [OF h(1)] h
  show ?thesis
    by simp
qed

subsection \<open>Approving and rejecting drafts\<close>

text \<open>
  Claim C8, as stated, fails on an approved draft. The sample draft is approved; a second
  approval and a rejection both succeed without an error, and the rejection moves the stored
  status from approved to rejected. Neither operation looks at the status of the draft.
\<close>

theorem rejected_after_approved:
  "map_option d_status (drafts ex_approved ''d1'') = Some D_approved \<and>
   fst (approveDraft 2000 ''d1'' ''bob'' ex_approved) = Inr () \<and>
   fst (rejectDraft 2000 ''d1'' ''late'' ex_approved) = Inr () \<and>
   map_option d_status (drafts (snd (rejectDraft 2000 ''d1'' ''late'' ex_approved)) ''d1'') =
     Some D_rejected"
  by (simp add: ex_approved_def service_defs example_defs)

text \<open>
  Claim C8, amended. For a stored draft, whatever its status, approving succeeds and leaves
  the status approved, and rejecting succeeds and leaves the status rejected, changing
  nothing else but the draft's status and modification time. The only error of the two
  operations is an unknown draft id, and then the service is unchanged.
\<close>

theorem draft_decision_overwrites:
  "(drafts s draftId = Some d \<longrightarrow>
      fst (approveDraft now draftId approver s) = Inr () \<and>
      map_option d_status (drafts (snd (approveDraft now draftId approver s)) draftId) =
        Some D_approved \<and>
      rejectDraft now draftId reason s =
        (Inr (), s\<lparr>drafts := (drafts s)(draftId \<mapsto>
                       d\<lparr>d_status := D_rejected, d_updatedAt := now\<rparr>)\<rparr>)) \<and>
   (drafts s draftId = None \<longrightarrow>
      approveDraft now draftId approver s =
        (Inl (ErrorObj (''Failed to approve draft: Draft '' @ draftId @ '' not found'')), s) \<and>
      rejectDraft now draftId reason s =
        (Inl (ErrorObj (''Failed to reject draft: Draft '' @ draftId @ '' not found'')), s))"
  by (auto simp: approveDraft_def rejectDraft_def rethrow_def draft_not_found_def Let_def
      getCampaign_def updateCampaign_found split: option.splits)

text \<open>The approved sample draft is approved again; an unknown id is refused.\<close>

theorem draft_decision_overwrites_witness:
  "drafts ex_approved ''d1'' \<noteq> None \<and>
   fst (approveDraft 2000 ''d1'' ''bob'' ex_approved) = Inr () \<and>
   map_option d_status (drafts (snd (approveDraft 2000 ''d1'' ''bob'' ex_approved)) ''d1'') =
     Some D_approved \<and>
   drafts ex_approved ''d2'' = None \<and>
   rejectDraft 2000 ''d2'' ''late'' ex_approved =
     (Inl (ErrorObj ''Failed to reject draft: Draft d2 not found''), ex_approved)"
proof -
  obtain d where d: "drafts ex_approved ''d1'' = Some d"
    using ex_approved_status by (cases "drafts ex_approved ''d1''") auto
  have n: "drafts ex_approved ''d2'' = None"
    by (simp add: ex_approved_def service_defs example_defs)
  from draft_decision_overwrites [of ex_approved "''d1''" d 2000 "''bob''" "''late''"]
    draft_decision_overwrites [of ex_approved "''d2''" d 2000 "''bob''" "''late''"] d n
  show ?thesis
    by simp
qed

subsection \<open>Failed operations\<close>

text \<open>
  Claim C9, as stated, fails when the job queue is unavailable. Pausing the active sample
  campaign then fails with an error, and the stored status has already become paused: the
  status is written before the queue is asked for its jobs, and nothing restores it.
\<close>

theorem failed_pause_leaves_paused:
  "map_option c_status (campaigns (ex_service C_active False) ''c1'') = Some C_active \<and>
   fst (pauseCampaign 1000 ''c1'' (ex_service C_active False)) =
     Inl (ErrorObj ''Failed to pause campaign: Connection is closed.'') \<and>
   map_option c_status
     (campaigns (snd (pauseCampaign 1000 ''c1'' (ex_service C_active False))) ''c1'') =
     Some C_paused"
  by (simp add: service_defs example_defs)

text \<open>
  Claim C9, amended. A delete that fails with an error, and a schedule, pause or resume
  that fails with an error while the job queue is available, leaves the whole service,
  campaign store included, exactly as it was. So does, whether or not the queue is
  available, a schedule, pause or resume of an unknown campaign id and a resume of a stored
  campaign that is not paused, which all fail. On a stored campaign, a pause fails exactly
  when the queue is
  unavailable; a schedule fails exactly when the queue is unavailable and the new schedule
  is recurring or starts strictly after the clock reading; a resume of a paused campaign
  fails exactly when the queue is unavailable and the stored schedule is recurring or starts
  strictly after the clock reading. Each of these failures comes after the store has been
  written and nothing is rolled back: the operation fails with the queue's error, and the
  service it leaves differs from the one before in the stored campaign alone, which has
  status paused after a pause, the new schedule and status scheduled after a schedule, and
  status scheduled after a resume, with \<^verbatim>\<open>updatedAt\<close> the clock reading.
\<close>

theorem failed_operation_frame:
  "(q_available (campaignQueue s) \<longrightarrow>
      (isl (fst (scheduleCampaign plus100 now cid schedule s)) \<longrightarrow>
         snd (scheduleCampaign plus100 now cid schedule s) = s) \<and>
      (isl (fst (pauseCampaign now cid s)) \<longrightarrow> snd (pauseCampaign now cid s) = s) \<and>
      (isl (fst (resumeCampaign plus100 now cid s)) \<longrightarrow>
         snd (resumeCampaign plus100 now cid s) = s)) \<and>
   (isl (fst (deleteCampaign cid s)) \<longrightarrow> snd (deleteCampaign cid s) = s) \<and>
   (campaigns s cid = Some c \<longrightarrow>
      isl (fst (pauseCampaign now cid s)) = (\<not> q_available (campaignQueue s)) \<and>
      (\<not> q_available (campaignQueue s) \<longrightarrow>
         pauseCampaign now cid s =
           (Inl (ErrorObj ''Failed to pause campaign: Connection is closed.''),
            s\<lparr>campaigns := (campaigns s)(cid \<mapsto>
                c\<lparr>c_status := C_paused, c_updatedAt := now\<rparr>)\<rparr>)) \<and>
      isl (fst (scheduleCampaign plus100 now cid schedule s)) =
        (\<not> q_available (campaignQueue s) \<and>
         (sch_frequency schedule \<noteq> None \<or> now < sch_startDate schedule)) \<and>
      (\<not> q_available (campaignQueue s) \<and>
       (sch_frequency schedule \<noteq> None \<or> now < sch_startDate schedule) \<longrightarrow>
         scheduleCampaign plus100 now cid schedule s =
           (Inl (ErrorObj ''Failed to schedule campaign: Connection is closed.''),
            s\<lparr>campaigns := (campaigns s)(cid \<mapsto>
                c\<lparr>c_schedule := schedule, c_status := C_scheduled, c_updatedAt := now\<rparr>)\<rparr>)) \<and>
      (c_status c = C_paused \<longrightarrow>
         isl (fst (resumeCampaign plus100 now cid s)) =
           (\<not> q_available (campaignQueue s) \<and>
            (sch_frequency (c_schedule c) \<noteq> None \<or> now < sch_startDate (c_schedule c))) \<and>
         (\<not> q_available (campaignQueue s) \<and>
          (sch_frequency (c_schedule c) \<noteq> None \<or> now < sch_startDate (c_schedule c)) \<longrightarrow>
            resumeCampaign plus100 now cid s =
              (Inl (ErrorObj
                 ''Failed to resume campaign: Failed to schedule campaign: Connection is closed.''),
               s\<lparr>campaigns := (campaigns s)(cid \<mapsto>
                   c\<lparr>c_status := C_scheduled, c_updatedAt := now\<rparr>)\<rparr>))) \<and>
      (c_status c \<noteq> C_paused \<longrightarrow>
         resumeCampaign plus100 now cid s =
           (Inl (ErrorObj ''Failed to resume campaign: Campaign is not paused''), s))) \<and>
   (campaigns s cid = None \<longrightarrow>
      scheduleCampaign plus100 now cid schedule s =
        (Inl (ErrorObj (''Failed to schedule campaign: Campaign '' @ cid @ '' not found'')), s) \<and>
      pauseCampaign now cid s =
        (Inl (ErrorObj (''Failed to pause campaign: Campaign '' @ cid @ '' not found'')), s) \<and>
      resumeCampaign plus100 now cid s =
        (Inl (ErrorObj (''Failed to resume campaign: Campaign '' @ cid @ '' not found'')), s))"
proof -
  have sched_fails: "isl (fst (scheduleCampaign plus100 now cid sch s')) =
      (\<not> q_available (campaignQueue s') \<and> (sch_frequency sch \<noteq> None \<or> now < sch_startDate sch))"
    if "campaigns s' cid = Some c'" for s' :: "'a service" and sch c'
  proof (cases "q_available (campaignQueue s')")
    case True
    with scheduleCampaign_succeeds [OF True that] show ?thesis
      by simp
  next
    case False
    show ?thesis
    proof (cases "sch_frequency sch \<noteq> None \<or> 0 < sch_startDate sch - now")
      case True
      with scheduleCampaign_unavailable [OF that False True] False show ?thesis
        by auto
    next
      case False
      with scheduleCampaign_past_succeeds [OF that, of sch now plus100] show ?thesis
        by auto
    qed
  qed
  have a1: "snd (scheduleCampaign plus100 now cid schedule s) = s"
    if q: "q_available (campaignQueue s)"
      and f: "isl (fst (scheduleCampaign plus100 now cid schedule s))"
  proof -
    have "campaigns s cid = None"
      using scheduleCampaign_succeeds [OF q] f by (cases "campaigns s cid") auto
    then show ?thesis
      by (simp add: scheduleCampaign_def getCampaign_def rethrow_def)
  qed
  have a2: "snd (pauseCampaign now cid s) = s"
    if q: "q_available (campaignQueue s)" and f: "isl (fst (pauseCampaign now cid s))"
  proof -
    have "campaigns s cid = None"
      using pauseCampaign_available [OF _ q] f by (cases "campaigns s cid") auto
    then show ?thesis
      by (simp add: pauseCampaign_def getCampaign_def rethrow_def)
  qed
  have a3: "snd (resumeCampaign plus100 now cid s) = s"
    if q: "q_available (campaignQueue s)" and f: "isl (fst (resumeCampaign plus100 now cid s))"
  proof (cases "campaigns s cid")
    case None
    then show ?thesis
      by (simp add: resumeCampaign_def getCampaign_def rethrow_def)
  next
    case (Some c')
    show ?thesis
    proof (cases "c_status c' = C_paused")
      case False
      with Some show ?thesis
        by (simp add: resumeCampaign_def getCampaign_def rethrow_def)
    next
      case True
      have "\<not> isl (fst (resumeCampaign plus100 now cid s))"
        unfolding resumeCampaign_paused [OF Some True] isl_rethrow
        by (rule scheduleCampaign_succeeds) (simp_all add: q)
      with f show ?thesis
        by simp
    qed
  qed
  have b: "snd (deleteCampaign cid s) = s" if f: "isl (fst (deleteCampaign cid s))"
  proof (cases "campaigns s cid")
    case None
    then show ?thesis
      by (simp add: deleteCampaign_def getCampaign_def rethrow_def)
  next
    case (Some c')
    show ?thesis
    proof (cases "c_status c' = C_scheduled")
      case False
      with Some f show ?thesis
        by (simp add: deleteCampaign_not_scheduled)
    next
      case True
      show ?thesis
      proof (cases "q_available (campaignQueue s)")
        case True
        with Some \<open>c_status c' = C_scheduled\<close> f show ?thesis
          by (simp add: deleteCampaign_scheduled)
      next
        case False
        with Some True show ?thesis
          by (simp add: deleteCampaign_unavailable)
      qed
    qed
  qed
  have c1: "isl (fst (pauseCampaign now cid s)) = (\<not> q_available (campaignQueue s))"
    if "campaigns s cid = Some c"
    using pauseCampaign_available [OF that] pauseCampaign_unavailable [OF that, of now]
    by (cases "q_available (campaignQueue s)") simp_all
  have c2: "pauseCampaign now cid s =
           (Inl (ErrorObj ''Failed to pause campaign: Connection is closed.''),
            s\<lparr>campaigns := (campaigns s)(cid \<mapsto> c\<lparr>c_status := C_paused, c_updatedAt := now\<rparr>)\<rparr>)"
    if "campaigns s cid = Some c" and "\<not> q_available (campaignQueue s)"
    using that by (rule pauseCampaign_unavailable)
  have c4: "scheduleCampaign plus100 now cid schedule s =
           (Inl (ErrorObj ''Failed to schedule campaign: Connection is closed.''),
            s\<lparr>campaigns := (campaigns s)(cid \<mapsto>
                c\<lparr>c_schedule := schedule, c_status := C_scheduled, c_updatedAt := now\<rparr>)\<rparr>)"
    if "campaigns s cid = Some c"
      and "\<not> q_available (campaignQueue s) \<and>
           (sch_frequency schedule \<noteq> None \<or> now < sch_startDate schedule)"
    using that by (intro scheduleCampaign_unavailable) auto
  have c5: "isl (fst (resumeCampaign plus100 now cid s)) =
           (\<not> q_available (campaignQueue s) \<and>
            (sch_frequency (c_schedule c) \<noteq> None \<or> now < sch_startDate (c_schedule c)))"
    if k: "campaigns s cid = Some c" and p: "c_status c = C_paused"
    unfolding resumeCampaign_paused [OF k p] isl_rethrow
    by (subst sched_fails) simp_all
  have c6: "resumeCampaign plus100 now cid s =
              (Inl (ErrorObj
                 ''Failed to resume campaign: Failed to schedule campaign: Connection is closed.''),
               s\<lparr>campaigns := (campaigns s)(cid \<mapsto>
                   c\<lparr>c_status := C_scheduled, c_updatedAt := now\<rparr>)\<rparr>)"
    if "campaigns s cid = Some c" and "c_status c = C_paused"
      and "\<not> q_available (campaignQueue s) \<and>
           (sch_frequency (c_schedule c) \<noteq> None \<or> now < sch_startDate (c_schedule c))"
    using that by (intro resumeCampaign_unavailable) auto
  have c7: "resumeCampaign plus100 now cid s =
           (Inl (ErrorObj ''Failed to resume campaign: Campaign is not paused''), s)"
    if "campaigns s cid = Some c" and "c_status c \<noteq> C_paused"
    using that by (simp add: resumeCampaign_def getCampaign_def rethrow_def)
  have d: "scheduleCampaign plus100 now cid schedule s =
        (Inl (ErrorObj (''Failed to schedule campaign: Campaign '' @ cid @ '' not found'')), s) \<and>
      pauseCampaign now cid s =
        (Inl (ErrorObj (''Failed to pause campaign: Campaign '' @ cid @ '' not found'')), s) \<and>
      resumeCampaign plus100 now cid s =
        (Inl (ErrorObj (''Failed to resume campaign: Campaign '' @ cid @ '' not found'')), s)"
    if "campaigns s cid = None"
    using that
    by (simp add: scheduleCampaign_def pauseCampaign_def resumeCampaign_def getCampaign_def
        rethrow_def not_found_def)
  show ?thesis
    using a1 a2 a3 b c1 c2 sched_fails [of s c schedule] c4 c5 c6 c7 d
    by blast
qed

text \<open>
  The sample campaign at clock reading 1000. With the queue available, resuming it while
  active fails and changes nothing, and so does pausing a campaign that is not stored; with
  the queue unavailable, deleting it while scheduled
  fails and changes nothing, whereas pausing it, scheduling it for the start date 5000 and
  resuming it while paused (its stored start date is 5000) fail and leave it stored with
  status paused, scheduled and scheduled.
\<close>

theorem failed_operation_frame_witness:
  "q_available (campaignQueue (ex_service C_active True)) \<and>
   isl (fst (resumeCampaign ex_plus100 1000 ''c1'' (ex_service C_active True))) \<and>
   snd (resumeCampaign ex_plus100 1000 ''c1'' (ex_service C_active True)) =
     ex_service C_active True \<and>
   isl (fst (deleteCampaign ''c1'' (ex_service C_scheduled False))) \<and>
   snd (deleteCampaign ''c1'' (ex_service C_scheduled False)) = ex_service C_scheduled False \<and>
   campaigns (ex_service C_active True) ''c2'' = None \<and>
   pauseCampaign 1000 ''c2'' (ex_service C_active True) =
     (Inl (ErrorObj ''Failed to pause campaign: Campaign c2 not found''),
      ex_service C_active True) \<and>
   c_status (ex_campaign C_active) \<noteq> C_paused \<and>
   resumeCampaign ex_plus100 1000 ''c1'' (ex_service C_active False) =
     (Inl (ErrorObj ''Failed to resume campaign: Campaign is not paused''),
      ex_service C_active False) \<and>
   campaigns (ex_service C_paused False) ''c1'' = Some (ex_campaign C_paused) \<and>
   \<not> q_available (campaignQueue (ex_service C_paused False)) \<and>
   1000 < sch_startDate ex_schedule_future \<and>
   c_status (ex_campaign C_paused) = C_paused \<and>
   1000 < sch_startDate (c_schedule (ex_campaign C_paused)) \<and>
   isl (fst (pauseCampaign 1000 ''c1'' (ex_service C_paused False))) \<and>
   isl (fst (scheduleCampaign ex_plus100 1000 ''c1'' ex_schedule_future
     (ex_service C_paused False))) \<and>
   isl (fst (resumeCampaign ex_plus100 1000 ''c1'' (ex_service C_paused False))) \<and>
   snd (pauseCampaign 1000 ''c1'' (ex_service C_paused False)) =
     (ex_service C_paused False)\<lparr>campaigns :=
        [''c1'' \<mapsto> (ex_campaign C_paused)\<lparr>c_updatedAt := 1000\<rparr>]\<rparr> \<and>
   snd (scheduleCampaign ex_plus100 1000 ''c1'' ex_schedule_future (ex_service C_paused False)) =
     (ex_service C_paused False)\<lparr>campaigns :=
        [''c1'' \<mapsto> (ex_campaign C_scheduled)\<lparr>c_updatedAt := 1000\<rparr>]\<rparr> \<and>
   snd (resumeCampaign ex_plus100 1000 ''c1'' (ex_service C_paused False)) =
     (ex_service C_paused False)\<lparr>campaigns :=
        [''c1'' \<mapsto> (ex_campaign C_scheduled)\<lparr>c_updatedAt := 1000\<rparr>]\<rparr>"
proof -
  have h: "q_available (campaignQueue (ex_service C_active True))"
    "isl (fst (resumeCampaign ex_plus100 1000 ''c1'' (ex_service C_active True)))"
    "isl (fst (deleteCampaign ''c1'' (ex_service C_scheduled False)))"
    by (simp_all add: service_defs example_defs)
  have k: "campaigns (ex_service C_paused False) ''c1'' = Some (ex_campaign C_paused)"
    "\<not> q_available (campaignQueue (ex_service C_paused False))"
    "1000 < sch_startDate ex_schedule_future"
    "c_status (ex_campaign C_paused) = C_paused"
    "1000 < sch_startDate (c_schedule (ex_campaign C_paused))"
    "campaigns (ex_service C_active True) ''c2'' = None"
    "campaigns (ex_service C_active False) ''c1'' = Some (ex_campaign C_active)"
    "c_status (ex_campaign C_active) \<noteq> C_paused"
    by (simp_all add: example_defs)
  have u: "(ex_campaign C_paused)\<lparr>c_status := C_paused, c_updatedAt := 1000\<rparr> =
      (ex_campaign C_paused)\<lparr>c_updatedAt := 1000\<rparr>"
    "(ex_campaign C_paused)\<lparr>c_schedule := ex_schedule_future, c_status := C_scheduled,
        c_updatedAt := 1000\<rparr> = (ex_campaign C_scheduled)\<lparr>c_updatedAt := 1000\<rparr>"
    "(ex_campaign C_paused)\<lparr>c_status := C_scheduled, c_updatedAt := 1000\<rparr> =
      (ex_campaign C_scheduled)\<lparr>c_updatedAt := 1000\<rparr>"
    "(campaigns (ex_service C_paused False))(''c1'' \<mapsto> x) = [''c1'' \<mapsto> x]" for x
    by (simp_all add: example_defs)
  from failed_operation_frame [of "ex_service C_active True" ex_plus100 1000 "''c1''"
      ex_schedule_past "ex_campaign C_active"]
    failed_operation_frame [of "ex_service C_scheduled False" ex_plus100 1000 "''c1''"
      ex_schedule_past "ex_campaign C_scheduled"]
    failed_operation_frame [of "ex_service C_paused False" ex_plus100 1000 "''c1''"
      ex_schedule_future "ex_campaign C_paused"]
    failed_operation_frame [of "ex_service C_active True" ex_plus100 1000 "''c2''"
      ex_schedule_past "ex_campaign C_active"]
    failed_operation_frame [of "ex_service C_active False" ex_plus100 1000 "''c1''"
      ex_schedule_past "ex_campaign C_active"] h k
  show ?thesis
    by (simp add: u)
qed

end
